theory Spec2Isabelle
  imports Complex_Main "HOL-Library.Word" "HOL-Library.Stream" "HOL-Library.Multiset"
begin

unbundle bit_operations_syntax

section \<open>JavaScript values used by the gate catalog\<close>

text \<open>
  JavaScript's bitwise operators work on the 32-bit two's complement image of their
  operands and give a signed 32-bit result; the shift count is taken modulo 32.
\<close>

definition js_shl :: "int \<Rightarrow> nat \<Rightarrow> int" where
  "js_shl a n = sint (push_bit (n mod 32) (word_of_int a :: 32 word))"

definition js_sar :: "int \<Rightarrow> nat \<Rightarrow> int" where
  "js_sar a n = sint (signed_drop_bit (n mod 32) (word_of_int a :: 32 word))"

definition js_and :: "int \<Rightarrow> int \<Rightarrow> int" where
  "js_and a b = sint ((word_of_int a :: 32 word) AND word_of_int b)"

definition js_or :: "int \<Rightarrow> int \<Rightarrow> int" where
  "js_or a b = sint ((word_of_int a :: 32 word) OR word_of_int b)"

text \<open>
  The remainder operator \<open>%\<close> on numbers truncates towards zero, so the result has the
  sign of the dividend. It is exact: no rounding takes place.
\<close>

definition js_rem :: "real \<Rightarrow> real \<Rightarrow> real" where
  "js_rem a b = a - b * sgn (a / b) * of_int \<lfloor>\<bar>a / b\<bar>\<rfloor>"





text \<open>String concatenation \<open>"QFT" + span\<close> writes the number in decimal.\<close>

definition digit_char :: "nat \<Rightarrow> char" where
  "digit_char d = ''0123456789'' ! (d mod 10)"

fun number_toString :: "nat \<Rightarrow> string" where
  "number_toString n =
     (if n < 10 then [digit_char n] else number_toString (n div 10) @ [digit_char (n mod 10)])"

declare number_toString.simps [simp del]

text \<open>A thrown exception is a value; a call that can throw returns a sum.\<close>

datatype js_error =
    DetailedError string "(string \<times> int) list"
  | GetErrorFault int string
  | FrameBufferStatusFault int

definition try_catch :: "js_error + 'a \<Rightarrow> (js_error \<Rightarrow> 'b) \<Rightarrow> ('a \<Rightarrow> 'b) \<Rightarrow> 'b" where
  "try_catch body handler continue =
     (case body of Inl e \<Rightarrow> handler e | Inr v \<Rightarrow> continue v)"

text \<open>\<open>Math.random()\<close> reads the next number of an external source and advances it.\<close>

type_synonym random_source = "real stream"

definition Math_random :: "random_source \<Rightarrow> real \<times> random_source" where
  "Math_random src = (shd src, stl src)"

section \<open>Matrices\<close>

text \<open>A matrix is the list of its rows.\<close>

type_synonym Matrix = "complex list list"

text \<open>
  Modelled from the spec: \<open>Matrix.generate\<close> belongs to the math library, which is
  not part of the sources at hand. It fills a matrix of the given width and height from
  a function of row and column.
\<close>

definition Matrix_generate :: "int \<Rightarrow> int \<Rightarrow> (int \<Rightarrow> int \<Rightarrow> complex) \<Rightarrow> Matrix" where
  "Matrix_generate width height gen =
     map (\<lambda>r. map (\<lambda>c. gen (int r) (int c)) [0..<nat width]) [0..<nat height]"

text \<open>
  Modelled from the spec: \<open>Matrix.square\<close>, of the absent math library, called with
  four coefficients, which it lays out row by row as a 2 by 2 matrix.
\<close>

definition Matrix_square4 :: "complex \<Rightarrow> complex \<Rightarrow> complex \<Rightarrow> complex \<Rightarrow> Matrix" where
  "Matrix_square4 a b c d = [[a, b], [c, d]]"

text \<open>
  Modelled from the spec: \<open>Matrix.identity\<close>, of the absent math library, the identity
  matrix of a given size.
\<close>

definition Matrix_identity :: "nat \<Rightarrow> Matrix" where
  "Matrix_identity n = map (\<lambda>r. map (\<lambda>c. if r = c then 1 else 0) [0..<n]) [0..<n]"

text \<open>
  Modelled from the spec: \<open>Matrix.PAULI_X\<close>, of the absent math library, the Pauli X
  matrix.
\<close>

definition PAULI_X :: Matrix where
  "PAULI_X = [[0, 1], [1, 0]]"

text \<open>
  Modelled from the spec: \<open>Complex.polar\<close>, of the absent math library, the complex
  number of a magnitude and a phase (the closed form of the Fourier matrix, section 4.3).
\<close>

definition Complex_polar :: "real \<Rightarrow> real \<Rightarrow> complex" where
  "Complex_polar magnitude phase = complex_of_real magnitude * cis phase"

text \<open>
  Modelled from the spec: the effect of a matrix on an amplitude vector is the direct
  matrix multiplication (section 8); the shader that computes it is not part of the
  sources at hand.
\<close>

definition applyMatrix :: "Matrix \<Rightarrow> complex list \<Rightarrow> complex list" where
  "applyMatrix m v = map (\<lambda>row. sum_list (map2 (*) row v)) m"

text \<open>
  Modelled from the spec: product and adjoint of matrices and the property of being
  unitary, of the absent math library; a unitary matrix times its adjoint is the
  identity.
\<close>

definition Matrix_times :: "Matrix \<Rightarrow> Matrix \<Rightarrow> Matrix" where
  "Matrix_times a b =
     map (\<lambda>row. map (\<lambda>col. sum_list (map2 (*) row col)) (transpose b)) a"

definition Matrix_adjoint :: "Matrix \<Rightarrow> Matrix" where
  "Matrix_adjoint m = map (map cnj) (transpose m)"

definition isUnitary :: "Matrix \<Rightarrow> bool" where
  "isUnitary m = (Matrix_times m (Matrix_adjoint m) = Matrix_identity (length m))"

definition \<tau> :: real where
  "\<tau> = pi * 2"

section \<open>Textures and rendering contexts\<close>

text \<open>
  The part of a WebGL rendering context that the texture code drives: the calls made so
  far, counters of the objects created, the current bindings, and the answers the driver
  will give to the coming \<open>getError\<close> and \<open>checkFramebufferStatus\<close> calls (an empty
  list answers with success). Object handles are numbered from 1 in creation order.
\<close>

definition NO_ERROR :: int where "NO_ERROR = 0"
definition INVALID_VALUE :: int where "INVALID_VALUE = 1281"
definition INVALID_OPERATION :: int where "INVALID_OPERATION = 1282"
definition FRAMEBUFFER_COMPLETE :: int where "FRAMEBUFFER_COMPLETE = 36053"
definition GL_FLOAT :: int where "GL_FLOAT = 5126"
definition GL_UNSIGNED_BYTE :: int where "GL_UNSIGNED_BYTE = 5121"

datatype gl_enum =
    TEXTURE_MAG_FILTER | TEXTURE_MIN_FILTER | TEXTURE_WRAP_S | TEXTURE_WRAP_T
  | NEAREST | CLAMP_TO_EDGE

datatype gl_call =
    CreateTexture nat
  | CreateFramebuffer nat
  | BindTexture "nat option"
  | BindFramebuffer "nat option"
  | TexParameteri gl_enum gl_enum
  | TexImage2D int int int
  | FramebufferTexture2D nat
  | GetError int
  | CheckFramebufferStatus int

record gl_state =
  calls :: "gl_call list"
  texturesCreated :: nat
  framebuffersCreated :: nat
  boundTexture :: "nat option"
  boundFramebuffer :: "nat option"
  getErrorAnswers :: "int list"
  statusAnswers :: "int list"

definition createTexture :: "gl_state \<Rightarrow> nat \<times> gl_state" where
  "createTexture g =
     (let h = Suc (texturesCreated g)
      in (h, g\<lparr>calls := calls g @ [CreateTexture h], texturesCreated := h\<rparr>))"

definition createFramebuffer :: "gl_state \<Rightarrow> nat \<times> gl_state" where
  "createFramebuffer g =
     (let h = Suc (framebuffersCreated g)
      in (h, g\<lparr>calls := calls g @ [CreateFramebuffer h], framebuffersCreated := h\<rparr>))"

definition bindTexture :: "nat option \<Rightarrow> gl_state \<Rightarrow> gl_state" where
  "bindTexture t g = g\<lparr>calls := calls g @ [BindTexture t], boundTexture := t\<rparr>"

definition bindFramebuffer :: "nat option \<Rightarrow> gl_state \<Rightarrow> gl_state" where
  "bindFramebuffer f g = g\<lparr>calls := calls g @ [BindFramebuffer f], boundFramebuffer := f\<rparr>"

definition texParameteri :: "gl_enum \<Rightarrow> gl_enum \<Rightarrow> gl_state \<Rightarrow> gl_state" where
  "texParameteri pname param g = g\<lparr>calls := calls g @ [TexParameteri pname param]\<rparr>"

definition texImage2D :: "int \<Rightarrow> int \<Rightarrow> int \<Rightarrow> gl_state \<Rightarrow> gl_state" where
  "texImage2D w h ptype g = g\<lparr>calls := calls g @ [TexImage2D w h ptype]\<rparr>"

definition framebufferTexture2D :: "nat \<Rightarrow> gl_state \<Rightarrow> gl_state" where
  "framebufferTexture2D t g = g\<lparr>calls := calls g @ [FramebufferTexture2D t]\<rparr>"

definition nextAnswer :: "int \<Rightarrow> int list \<Rightarrow> int" where
  "nextAnswer success answers = (case answers of [] \<Rightarrow> success | a # _ \<Rightarrow> a)"

definition getError :: "gl_state \<Rightarrow> int \<times> gl_state" where
  "getError g =
     (let e = nextAnswer NO_ERROR (getErrorAnswers g)
      in (e, g\<lparr>calls := calls g @ [GetError e], getErrorAnswers := tl (getErrorAnswers g)\<rparr>))"

definition checkFramebufferStatus :: "gl_state \<Rightarrow> int \<times> gl_state" where
  "checkFramebufferStatus g =
     (let c = nextAnswer FRAMEBUFFER_COMPLETE (statusAnswers g)
      in (c, g\<lparr>calls := calls g @ [CheckFramebufferStatus c],
               statusAnswers := tl (statusAnswers g)\<rparr>))"

record WglContext =
  contextId :: nat
  lifetimeCounter :: nat
  gl :: gl_state

definition newContext :: "nat \<Rightarrow> int list \<Rightarrow> int list \<Rightarrow> WglContext" where
  "newContext cid errs stats =
     \<lparr>contextId = cid, lifetimeCounter = 0,
      gl = \<lparr>calls = [], texturesCreated = 0, framebuffersCreated = 0, boundTexture = None,
            boundFramebuffer = None, getErrorAnswers = errs, statusAnswers = stats\<rparr>\<rparr>"

text \<open>
  Modelled from the spec: \<open>WglUtil.checkGetErrorResult\<close> is not part of the sources at
  hand. It returns on the success code and otherwise raises a fault made of what the
  call site hands over, the code and the label of the operation.
\<close>

definition checkGetErrorResult :: "int \<Rightarrow> string \<Rightarrow> js_error option" where
  "checkGetErrorResult code previousOperationDescription =
     (if code = NO_ERROR then None else Some (GetErrorFault code previousOperationDescription))"

text \<open>
  Modelled from the spec: \<open>WglUtil.checkFrameBufferStatusResult\<close> is not part of the
  sources at hand. It returns on a complete framebuffer and otherwise raises a fault made
  of the status code, the only thing the call site hands over.
\<close>

definition checkFrameBufferStatusResult :: "int \<Rightarrow> js_error option" where
  "checkFrameBufferStatusResult code =
     (if code = FRAMEBUFFER_COMPLETE then None else Some (FrameBufferStatusFault code))"

record TextureAndFramebuffer =
  texture :: nat
  framebuffer :: nat

text \<open>
  Modelled from the spec: \<open>WglMortalValueSlot\<close> is not part of the sources at hand. The
  slot caches one value per rendering context together with the lifetime of the context
  at which it was made (section 4.1): a value is reused while the context has not been
  lost since, and made anew otherwise. A failed initialization stores nothing.
\<close>

type_synonym 'v WglMortalValueSlot = "nat \<rightharpoonup> nat \<times> 'v"

text \<open>
  Modelled from the spec: \<open>WglMortalValueSlot.initializedValue\<close>, not part of the
  sources at hand. It returns the cached value of a context that was not lost since the
  value was made, and otherwise runs the initializer and caches what it returns.
\<close>

definition initializedValue ::
  "'v WglMortalValueSlot \<Rightarrow> (WglContext \<Rightarrow> (js_error + 'v) \<times> WglContext) \<Rightarrow> WglContext
     \<Rightarrow> (js_error + 'v) \<times> 'v WglMortalValueSlot \<times> WglContext" where
  "initializedValue slot initializer wglContext =
     (case slot (contextId wglContext) of
        Some (lifetimeId, mortalValue) \<Rightarrow>
          if lifetimeId = lifetimeCounter wglContext
          then (Inr mortalValue, slot, wglContext)
          else
            (case initializer wglContext of
               (Inl e, ctx') \<Rightarrow> (Inl e, slot, ctx')
             | (Inr v, ctx') \<Rightarrow>
                 (Inr v, slot(contextId wglContext \<mapsto> (lifetimeCounter wglContext, v)), ctx'))
      | None \<Rightarrow>
          (case initializer wglContext of
             (Inl e, ctx') \<Rightarrow> (Inl e, slot, ctx')
           | (Inr v, ctx') \<Rightarrow>
               (Inr v, slot(contextId wglContext \<mapsto> (lifetimeCounter wglContext, v)), ctx')))"

record WglTexture =
  width :: int
  height :: int
  pixelType :: int
  textureAndFrameBufferSlot :: "TextureAndFramebuffer WglMortalValueSlot"

text \<open>
  The constructor stores the three arguments and an empty slot. A caller that leaves
  the pixel type out passes \<open>GL_FLOAT\<close>.
\<close>

definition WglTexture_new :: "int \<Rightarrow> int \<Rightarrow> int \<Rightarrow> WglTexture" where
  "WglTexture_new w h ptype =
     \<lparr>width = w, height = h, pixelType = ptype, textureAndFrameBufferSlot = Map.empty\<rparr>"

definition textureAndFramebufferInitializer ::
  "WglTexture \<Rightarrow> WglContext \<Rightarrow> (js_error + TextureAndFramebuffer) \<times> WglContext" where
  "textureAndFramebufferInitializer this wglContext =
     (let g0 = gl wglContext;
          (tex, g1) = createTexture g0;
          (fb, g2) = createFramebuffer g1;
          result = \<lparr>texture = tex, framebuffer = fb\<rparr>;
          g3 = bindTexture (Some tex) g2;
          g4 = bindFramebuffer (Some fb) g3;
          g5 = texParameteri TEXTURE_MAG_FILTER NEAREST g4;
          g6 = texParameteri TEXTURE_MIN_FILTER NEAREST g5;
          g7 = texParameteri TEXTURE_WRAP_S CLAMP_TO_EDGE g6;
          g8 = texParameteri TEXTURE_WRAP_T CLAMP_TO_EDGE g7;
          g9 = texImage2D (width this) (height this) (pixelType this) g8;
          (e1, g10) = getError g9
      in case checkGetErrorResult e1 ''texImage2D'' of
           Some err \<Rightarrow> (Inl err, wglContext\<lparr>gl := g10\<rparr>)
         | None \<Rightarrow>
             (let g11 = framebufferTexture2D tex g10;
                  (e2, g12) = getError g11
              in case checkGetErrorResult e2 ''framebufferTexture2D'' of
                   Some err \<Rightarrow> (Inl err, wglContext\<lparr>gl := g12\<rparr>)
                 | None \<Rightarrow>
                     (let (st, g13) = checkFramebufferStatus g12
                      in case checkFrameBufferStatusResult st of
                           Some err \<Rightarrow> (Inl err, wglContext\<lparr>gl := g13\<rparr>)
                         | None \<Rightarrow>
                             (let g14 = bindTexture None g13;
                                  g15 = bindFramebuffer None g14
                              in (Inr result, wglContext\<lparr>gl := g15\<rparr>)))))"

definition instanceFor ::
  "WglTexture \<Rightarrow> WglContext \<Rightarrow> (js_error + TextureAndFramebuffer) \<times> WglTexture \<times> WglContext" where
  "instanceFor this wglContext =
     (case initializedValue (textureAndFrameBufferSlot this)
             (textureAndFramebufferInitializer this) wglContext of
        (r, slot', ctx') \<Rightarrow> (r, this\<lparr>textureAndFrameBufferSlot := slot'\<rparr>, ctx'))"

definition bindFramebufferFor ::
  "WglTexture \<Rightarrow> WglContext \<Rightarrow> (js_error + unit) \<times> WglTexture \<times> WglContext" where
  "bindFramebufferFor this wglContext =
     (case instanceFor this wglContext of
        (Inl e, this', ctx') \<Rightarrow> (Inl e, this', ctx')
      | (Inr inst, this', ctx') \<Rightarrow>
          (let g1 = bindFramebuffer (Some (framebuffer inst)) (gl ctx');
               (e, g2) = getError g1
           in case checkGetErrorResult e ''framebufferTexture2D'' of
                Some err \<Rightarrow> (Inl err, this', ctx'\<lparr>gl := g2\<rparr>)
              | None \<Rightarrow>
                  (let (st, g3) = checkFramebufferStatus g2
                   in case checkFrameBufferStatusResult st of
                        Some err \<Rightarrow> (Inl err, this', ctx'\<lparr>gl := g3\<rparr>)
                      | None \<Rightarrow> (Inr (), this', ctx'\<lparr>gl := g3\<rparr>))))"

text \<open>
  The context after an initialization during which the driver reported no error: the
  fifteen calls of the initializer added to the trace, one texture and one framebuffer
  more, nothing bound, two error answers and one status answer used up.
\<close>

definition initialized :: "WglTexture \<Rightarrow> WglContext \<Rightarrow> WglContext" where
  "initialized this ctx =
     ctx\<lparr>gl := (gl ctx)\<lparr>calls := calls (gl ctx) @
           [CreateTexture (Suc (texturesCreated (gl ctx))),
            CreateFramebuffer (Suc (framebuffersCreated (gl ctx))),
            BindTexture (Some (Suc (texturesCreated (gl ctx)))),
            BindFramebuffer (Some (Suc (framebuffersCreated (gl ctx)))),
            TexParameteri TEXTURE_MAG_FILTER NEAREST, TexParameteri TEXTURE_MIN_FILTER NEAREST,
            TexParameteri TEXTURE_WRAP_S CLAMP_TO_EDGE, TexParameteri TEXTURE_WRAP_T CLAMP_TO_EDGE,
            TexImage2D (width this) (height this) (pixelType this), GetError NO_ERROR,
            FramebufferTexture2D (Suc (texturesCreated (gl ctx))), GetError NO_ERROR,
            CheckFramebufferStatus FRAMEBUFFER_COMPLETE,
            BindTexture None, BindFramebuffer None],
          texturesCreated := Suc (texturesCreated (gl ctx)),
          framebuffersCreated := Suc (framebuffersCreated (gl ctx)),
          boundTexture := None, boundFramebuffer := None,
          getErrorAnswers := tl (tl (getErrorAnswers (gl ctx))),
          statusAnswers := tl (statusAnswers (gl ctx))\<rparr>\<rparr>"

text \<open>
  The instance that the slot of a texture holds for a context that has not been lost
  since, and the outcome of the two checks that follow the binding of its framebuffer.
\<close>

definition bindingCheck :: "int list \<Rightarrow> int list \<Rightarrow> js_error + unit" where
  "bindingCheck errs stats =
     (let e = nextAnswer NO_ERROR errs;
          st = nextAnswer FRAMEBUFFER_COMPLETE stats
      in if e \<noteq> NO_ERROR then Inl (GetErrorFault e ''framebufferTexture2D'')
         else if st \<noteq> FRAMEBUFFER_COMPLETE then Inl (FrameBufferStatusFault st)
         else Inr ())"

definition cachedFor :: "WglTexture \<Rightarrow> WglContext \<Rightarrow> TextureAndFramebuffer option" where
  "cachedFor this ctx =
     (case textureAndFrameBufferSlot this (contextId ctx) of
        None \<Rightarrow> None
      | Some (lifetimeId, v) \<Rightarrow> if lifetimeId = lifetimeCounter ctx then Some v else None)"

section \<open>Gate definitions\<close>

text \<open>
  Modelled from the spec: the shader library (\<open>CircuitShaders\<close>, \<open>GateShaders\<close>) is not
  part of the sources at hand. A configured shader is represented by the library call
  that builds it, with the arguments in the order of the call.
\<close>

datatype shader_call =
    CircuitShaders_swap WglTexture int int WglTexture
  | GateShaders_fourierTransformStep WglTexture WglTexture int int
  | GateShaders_cycleBits WglTexture WglTexture int int int
  | GateShaders_universalNot WglTexture WglTexture int

type_synonym kernel = "WglTexture \<Rightarrow> WglTexture \<Rightarrow> int \<Rightarrow> js_error + shader_call"

datatype matrix_or_func = KnownMatrix Matrix | VaryingMatrix "real \<Rightarrow> Matrix"

datatype drawer =
    DEFAULT_DRAWER
  | MATRIX_SYMBOL_DRAWER_EXCEPT_IN_TOOLBOX
  | SQUARE_WAVE_DRAWER real nat
  | HIGHLIGHTED_DRAWER string string

text \<open>
  Modelled from the spec: the gate builder (\<open>Gate\<close>) is not part of the sources at hand.
  A gate definition is the immutable record of section 3: symbol, title, blurb, qubit
  span, optional static or time-varying matrix, optional ordered kernel list, stability
  and a serialization identifier. Each builder method returns the record with one
  field replaced. The identifier of a gate that is given none is its symbol.
\<close>

record Gate =
  symbol :: string
  name :: string
  blurb :: string
  gateHeight :: nat
  matrixOrFunc :: "matrix_or_func option"
  customShaders :: "kernel list option"
  serializedId :: string
  isStable :: bool
  stableDuration :: "real option"
  onlyPermutingAndPhasing :: bool
  customDrawer :: drawer

text \<open>
  Modelled from the spec: \<open>Gate.withoutKnownMatrix\<close>, of the absent gate builder: a gate
  of height 1 with symbol, title and blurb, no matrix and no kernels.
\<close>

definition withoutKnownMatrix :: "string \<Rightarrow> string \<Rightarrow> string \<Rightarrow> Gate" where
  "withoutKnownMatrix smb nm bl =
     \<lparr>symbol = smb, name = nm, blurb = bl, gateHeight = 1, matrixOrFunc = None,
      customShaders = None, serializedId = smb, isStable = False, stableDuration = None,
      onlyPermutingAndPhasing = False, customDrawer = DEFAULT_DRAWER\<rparr>"

text \<open>
  Modelled from the spec: \<open>Gate.fromKnownMatrix\<close>, of the absent gate builder: a gate
  with a static matrix, whose effect does not depend on time.
\<close>

definition fromKnownMatrix :: "string \<Rightarrow> Matrix \<Rightarrow> string \<Rightarrow> string \<Rightarrow> Gate" where
  "fromKnownMatrix smb m nm bl =
     (withoutKnownMatrix smb nm bl)\<lparr>matrixOrFunc := Some (KnownMatrix m), isStable := True\<rparr>"

text \<open>
  Modelled from the spec: \<open>Gate.fromVaryingMatrix\<close>, of the absent gate builder: a gate
  whose matrix is a function of time.
\<close>

definition fromVaryingMatrix :: "string \<Rightarrow> (real \<Rightarrow> Matrix) \<Rightarrow> string \<Rightarrow> string \<Rightarrow> Gate" where
  "fromVaryingMatrix smb f nm bl =
     (withoutKnownMatrix smb nm bl)\<lparr>matrixOrFunc := Some (VaryingMatrix f)\<rparr>"

text \<open>
  Modelled from the spec: \<open>markedAsStable\<close>, of the absent gate builder, sets the
  stability flag.
\<close>

definition markedAsStable :: "Gate \<Rightarrow> Gate" where
  "markedAsStable g = g\<lparr>isStable := True\<rparr>"

text \<open>
  Modelled from the spec: \<open>markedAsOnlyPermutingAndPhasing\<close>, of the absent gate
  builder, records that the gate only permutes and phases amplitudes.
\<close>

definition markedAsOnlyPermutingAndPhasing :: "Gate \<Rightarrow> Gate" where
  "markedAsOnlyPermutingAndPhasing g = g\<lparr>onlyPermutingAndPhasing := True\<rparr>"

text \<open>
  Modelled from the spec: \<open>withKnownMatrix\<close>, of the absent gate builder, replaces the
  matrix; \<open>undefined\<close> leaves the gate without one.
\<close>

definition withKnownMatrix :: "Matrix option \<Rightarrow> Gate \<Rightarrow> Gate" where
  "withKnownMatrix m g = g\<lparr>matrixOrFunc := map_option KnownMatrix m\<rparr>"

text \<open>
  Modelled from the spec: \<open>withSerializedId\<close>, of the absent gate builder, replaces
  the serialization identifier.
\<close>

definition withSerializedId :: "string \<Rightarrow> Gate \<Rightarrow> Gate" where
  "withSerializedId i g = g\<lparr>serializedId := i\<rparr>"

text \<open>
  Modelled from the spec: \<open>withHeight\<close>, of the absent gate builder, replaces the
  qubit span.
\<close>

definition withHeight :: "nat \<Rightarrow> Gate \<Rightarrow> Gate" where
  "withHeight h g = g\<lparr>gateHeight := h\<rparr>"

text \<open>
  Modelled from the spec: \<open>withCustomShaders\<close>, of the absent gate builder, replaces
  the ordered kernel list.
\<close>

definition withCustomShaders :: "kernel list \<Rightarrow> Gate \<Rightarrow> Gate" where
  "withCustomShaders ks g = g\<lparr>customShaders := Some ks\<rparr>"

text \<open>
  Modelled from the spec: \<open>withCustomShader\<close>, of the absent gate builder, gives the
  gate a kernel list of one kernel.
\<close>

definition withCustomShader :: "kernel \<Rightarrow> Gate \<Rightarrow> Gate" where
  "withCustomShader k g = withCustomShaders [k] g"

text \<open>
  Modelled from the spec: \<open>withCustomDrawer\<close>, of the absent gate builder, replaces
  the drawing routine, which takes no part in the simulation.
\<close>

definition withCustomDrawer :: "drawer \<Rightarrow> Gate \<Rightarrow> Gate" where
  "withCustomDrawer d g = g\<lparr>customDrawer := d\<rparr>"

text \<open>
  Modelled from the spec: \<open>withStableDuration\<close>, of the absent gate builder, records
  for how long the matrix of a time-varying gate stays the same.
\<close>

definition withStableDuration :: "real \<Rightarrow> Gate \<Rightarrow> Gate" where
  "withStableDuration d g = g\<lparr>stableDuration := Some d\<rparr>"

text \<open>
  Modelled from the spec: the matrix of a gate at a time, of the absent gate class: the
  static matrix, or the time-varying matrix at that time.
\<close>

definition matrixAt :: "Gate \<Rightarrow> real \<Rightarrow> Matrix option" where
  "matrixAt g t =
     (case matrixOrFunc g of
        None \<Rightarrow> None
      | Some (KnownMatrix m) \<Rightarrow> Some m
      | Some (VaryingMatrix f) \<Rightarrow> Some (f t))"

text \<open>
  Modelled from the spec: applying a gate with a matrix to an amplitude vector is the
  multiplication by its matrix at that time (section 8); the code that does it is not
  part of the sources at hand.
\<close>

definition applyGateAt :: "Gate \<Rightarrow> real \<Rightarrow> complex list \<Rightarrow> complex list option" where
  "applyGateAt g t v = map_option (\<lambda>m. applyMatrix m v) (matrixAt g t)"

text \<open>
  Modelled from the spec: the result of \<open>Gate.generateFamily\<close>, which is not part of
  the sources at hand. A family is the list of its instances and a mapping from span to
  instance (sections 3 and 9).
\<close>

record GateFamily =
  all :: "Gate list"
  sizeTable :: "(nat \<times> Gate) list"

text \<open>
  Modelled from the spec: \<open>Gate.generateFamily\<close>, not part of the sources at hand,
  instantiates the generator at every span of the inclusive range, in order.
\<close>

definition generateFamily :: "nat \<Rightarrow> nat \<Rightarrow> (nat \<Rightarrow> Gate) \<Rightarrow> GateFamily" where
  "generateFamily minSize maxSize gateGenerator =
     \<lparr>all = map gateGenerator [minSize..<Suc maxSize],
      sizeTable = map (\<lambda>spn. (spn, gateGenerator spn)) [minSize..<Suc maxSize]\<rparr>"

text \<open>
  Modelled from the spec: \<open>ofSize\<close> of a family, not part of the sources at hand, looks
  the span up in the mapping of the family.
\<close>

definition ofSize :: "GateFamily \<Rightarrow> nat \<Rightarrow> Gate option" where
  "ofSize fam spn = map_of (sizeTable fam) spn"

section \<open>The Fourier transform family\<close>

definition FOURIER_TRANSFORM_MATRIX_MAKER :: "nat \<Rightarrow> Matrix" where
  "FOURIER_TRANSFORM_MATRIX_MAKER spn =
     Matrix_generate (js_shl 1 spn) (js_shl 1 spn)
       (\<lambda>r c. Complex_polar ((1/2) powr (real spn / 2))
                 (\<tau> * real_of_int r * real_of_int c / real_of_int (js_shl 1 spn)))"

definition FourierTransformGate :: "nat \<Rightarrow> Gate" where
  "FourierTransformGate spn =
     withCustomShaders
       (map (\<lambda>i. \<lambda>val con bit.
               Inr (CircuitShaders_swap val (bit + int i) (bit + int spn - int i - 1) con))
            [0..<spn div 2]
        @ map (\<lambda>i. \<lambda>val con bit. Inr (GateShaders_fourierTransformStep val con bit (int i)))
            [0..<spn])
       (withHeight spn
         (withSerializedId (''QFT'' @ number_toString spn)
           (withKnownMatrix
              (if spn \<ge> 4 then None else Some (FOURIER_TRANSFORM_MATRIX_MAKER spn))
              (markedAsStable
                (withoutKnownMatrix ''QFT'' ''Fourier Transform Gate''
                   ''Transforms to/from phase frequency space.'')))))"

definition FourierTransformFamily :: GateFamily where
  "FourierTransformFamily = generateFamily 1 16 FourierTransformGate"

section \<open>Third, fourth, eighth and sixteenth roots of Z\<close>

text \<open>
  \<open>Matrix.fromPauliRotation\<close> belongs to the math library, which is not part of the
  sources at hand; it is a parameter of the gates built with it. Symbols outside ASCII
  are written as their UTF-8 bytes.
\<close>

definition frac_one_third :: string where
  "frac_one_third = [CHR 0xE2, CHR 0x85, CHR 0x93]"
definition frac_one_quarter :: string where
  "frac_one_quarter = [CHR 0xC2, CHR 0xBC]"
definition frac_one_eighth :: string where
  "frac_one_eighth = [CHR 0xE2, CHR 0x85, CHR 0x9B]"
definition frac_one_sixteenth :: string where
  "frac_one_sixteenth =
     [CHR 0xE2, CHR 0x85, CHR 0x9F, CHR 0xE2, CHR 0x82, CHR 0x81, CHR 0xE2, CHR 0x82, CHR 0x86]"
definition left_ceiling :: string where
  "left_ceiling = [CHR 0xE2, CHR 0x8C, CHR 0x88]"
definition right_ceiling :: string where
  "right_ceiling = [CHR 0xE2, CHR 0x8C, CHR 0x89]"

definition Z3 :: "(real \<Rightarrow> real \<Rightarrow> real \<Rightarrow> Matrix) \<Rightarrow> Gate" where
  "Z3 fromPauliRotation =
     fromKnownMatrix (''Z^'' @ frac_one_third) (fromPauliRotation 0 0 (1 / 6))
       (''Z^'' @ frac_one_third @ '' Gate'') ''Principle third root of Z.''"

definition Z3i :: "(real \<Rightarrow> real \<Rightarrow> real \<Rightarrow> Matrix) \<Rightarrow> Gate" where
  "Z3i fromPauliRotation =
     fromKnownMatrix (''Z^-'' @ frac_one_third) (fromPauliRotation 0 0 (- 1 / 6))
       (''Z^-'' @ frac_one_third @ '' Gate'') ''Adjoint third root of Z.''"

definition Z4 :: "(real \<Rightarrow> real \<Rightarrow> real \<Rightarrow> Matrix) \<Rightarrow> Gate" where
  "Z4 fromPauliRotation =
     fromKnownMatrix (''Z^'' @ frac_one_quarter) (fromPauliRotation 0 0 (1 / 8))
       (''Z^'' @ frac_one_quarter @ '' Gate'')
       (''Principle fourth root of Z.'' @ [CHR 0x0A] @ ''Also known as the 'T' gate.'')"

definition Z4i :: "(real \<Rightarrow> real \<Rightarrow> real \<Rightarrow> Matrix) \<Rightarrow> Gate" where
  "Z4i fromPauliRotation =
     fromKnownMatrix (''Z^-'' @ frac_one_quarter) (fromPauliRotation 0 0 (- 1 / 8))
       (''Z^-'' @ frac_one_quarter @ '' Gate'') ''Adjoint fourth root of Z.''"

definition Z8 :: "(real \<Rightarrow> real \<Rightarrow> real \<Rightarrow> Matrix) \<Rightarrow> Gate" where
  "Z8 fromPauliRotation =
     fromKnownMatrix (''Z^'' @ frac_one_eighth) (fromPauliRotation 0 0 (1 / 16))
       (''Z^'' @ frac_one_eighth @ '' Gate'') ''Principle eighth root of Z.''"

definition Z8i :: "(real \<Rightarrow> real \<Rightarrow> real \<Rightarrow> Matrix) \<Rightarrow> Gate" where
  "Z8i fromPauliRotation =
     fromKnownMatrix (''Z^-'' @ frac_one_eighth) (fromPauliRotation 0 0 (- 1 / 16))
       (''Z^-'' @ frac_one_eighth @ '' Gate'') ''Adjoint eighth root of Z.''"

definition Z16 :: "(real \<Rightarrow> real \<Rightarrow> real \<Rightarrow> Matrix) \<Rightarrow> Gate" where
  "Z16 fromPauliRotation =
     fromKnownMatrix (''Z^'' @ frac_one_sixteenth) (fromPauliRotation 0 0 (1 / 32))
       (''Z^'' @ frac_one_sixteenth @ '' Gate'') ''Principle sixteenth root of Z.''"

definition Z16i :: "(real \<Rightarrow> real \<Rightarrow> real \<Rightarrow> Matrix) \<Rightarrow> Gate" where
  "Z16i fromPauliRotation =
     fromKnownMatrix (''Z^-'' @ frac_one_sixteenth) (fromPauliRotation 0 0 (- 1 / 32))
       (''Z^-'' @ frac_one_sixteenth @ '' Gate'') ''Adjoint sixteenth root of Z.''"

section \<open>Miscellaneous gates\<close>

definition MysteryGateSymbol :: string where
  "MysteryGateSymbol = ''?''"

definition MysteryGateMakerWithMatrix :: "Matrix \<Rightarrow> Gate" where
  "MysteryGateMakerWithMatrix matrix =
     withCustomDrawer MATRIX_SYMBOL_DRAWER_EXCEPT_IN_TOOLBOX
       (fromKnownMatrix MysteryGateSymbol matrix ''Mystery Gate''
          (''Every time you grab this gate out of the toolbox, it changes.'' @ [CHR 0x0A]
           @ ''Duplicate gates in the circuit by holding shift before dragging.''))"

text \<open>
  \<open>closestUnitary\<close> belongs to the math library, which is not part of the sources at
  hand; it is a parameter. The eight random numbers are drawn in the order in which the
  arguments are written.
\<close>

definition MysteryGateMaker :: "(Matrix \<Rightarrow> Matrix) \<Rightarrow> random_source \<Rightarrow> Gate \<times> random_source" where
  "MysteryGateMaker closestUnitary src =
     (let (r1, s1) = Math_random src;
          (r2, s2) = Math_random s1;
          (r3, s3) = Math_random s2;
          (r4, s4) = Math_random s3;
          (r5, s5) = Math_random s4;
          (r6, s6) = Math_random s5;
          (r7, s7) = Math_random s6;
          (r8, s8) = Math_random s7
      in (MysteryGateMakerWithMatrix
            (closestUnitary
               (Matrix_square4
                  (Complex (r1 - 0.5) (r2 - 0.5))
                  (Complex (r3 - 0.5) (r4 - 0.5))
                  (Complex (r5 - 0.5) (r6 - 0.5))
                  (Complex (r7 - 0.5) (r8 - 0.5)))),
          s8))"

definition ClockPulseGate :: Gate where
  "ClockPulseGate =
     withStableDuration 0.5
       (withCustomDrawer (SQUARE_WAVE_DRAWER 0 2)
          (fromVaryingMatrix (''X^'' @ left_ceiling @ ''t'' @ right_ceiling)
             (\<lambda>t. if js_rem t 1 < 0.5 then Matrix_identity 2 else PAULI_X)
             ''Clock Pulse Gate''
             ''Xors a square wave into the target wire.''))"


section \<open>Experimental gates\<close>

definition CYCLE_BITS_MATRIX_MAKER :: "nat \<Rightarrow> Matrix" where
  "CYCLE_BITS_MATRIX_MAKER spn =
     Matrix_generate (js_shl 1 spn) (js_shl 1 spn)
       (\<lambda>r c.
          let expected = r;
              input = c;
              actual = js_shl input 1;
              actual = js_or (js_and actual (js_shl 1 spn - 1)) (js_sar actual spn)
          in if expected = actual then 1 else 0)"

definition UniversalNot :: Gate where
  "UniversalNot =
     withSerializedId ''__unstable__UniversalNot''
       (withCustomShader (\<lambda>val con bit. Inr (GateShaders_universalNot val con bit))
          (markedAsStable
             (withoutKnownMatrix ''UniNot'' ''Universal Not Gate''
                (''Mirrors a qubit's state through the origin of the Bloch sphere.''
                 @ [CHR 0x0A] @ ''Impossible in practice.''))))"

definition ErrorInjection :: Gate where
  "ErrorInjection =
     withCustomDrawer (HIGHLIGHTED_DRAWER ''red'' ''red'')
       (withSerializedId ''__debug__ErrorInjection''
          (withCustomShader
             (\<lambda>inputTex controlTex qubit.
                Inl (DetailedError ''Applied an Error Injection Gate'' [(''qubit'', qubit)]))
             (markedAsStable
                (withoutKnownMatrix ''ERR!'' ''Error Injection Gate''
                   ''Throws an exception during circuit stat computations, for testing error paths.''))))"

definition CycleBitsGate :: "nat \<Rightarrow> Gate" where
  "CycleBitsGate spn =
     withCustomShader (\<lambda>val con bit. Inr (GateShaders_cycleBits val con bit (int spn) 1))
       (withHeight spn
          (withSerializedId (''__unstable__cycle'' @ number_toString spn)
             (withKnownMatrix
                (if spn \<ge> 4 then None else Some (CYCLE_BITS_MATRIX_MAKER spn))
                (markedAsOnlyPermutingAndPhasing
                   (markedAsStable
                      (withoutKnownMatrix ''<<=1'' ''Bit Cycle Gate'' ''Swaps bits in a cycle.''))))))"

definition CycleBitsFamily :: GateFamily where
  "CycleBitsFamily = generateFamily 2 16 CycleBitsGate"

text \<open>
  Rotation of the low \<open>spn\<close> bits of a number by one position to the left, in the words of
  the specification: every bit moves one position up and the top bit comes back in at
  the bottom.
\<close>

definition rotate_left_one :: "nat \<Rightarrow> nat \<Rightarrow> nat" where
  "rotate_left_one spn c = (2 * c) mod 2 ^ spn + c div 2 ^ (spn - 1)"

section \<open>The gate tables\<close>

text \<open>
  The tables hold references to gate objects. A reference is the property path under
  which the object is stored, the family and size it was taken from, or the call that
  made it when the table was built. A path through an alias (\<open>Gates.HalfTurns\<close> for the
  module \<open>HalfTurnGates\<close>, and the like) is written from the module it stands for, so
  that one object has one reference. The gate modules other than this one are known by
  their references only.
\<close>

datatype gate_ref =
    Path "string list"
  | OfSize "string list" nat
  | Made "string list"

text \<open>The object literal \<open>Gates.OtherZ\<close>: its keys in order, each with the gate stored.\<close>

definition OtherZ :: "(real \<Rightarrow> real \<Rightarrow> real \<Rightarrow> Matrix) \<Rightarrow> (gate_ref \<times> Gate) list" where
  "OtherZ fromPauliRotation =
     [(Path [''Gates'', ''OtherZ'', ''Z3''], Z3 fromPauliRotation),
      (Path [''Gates'', ''OtherZ'', ''Z3i''], Z3i fromPauliRotation),
      (Path [''Gates'', ''OtherZ'', ''Z4''], Z4 fromPauliRotation),
      (Path [''Gates'', ''OtherZ'', ''Z4i''], Z4i fromPauliRotation),
      (Path [''Gates'', ''OtherZ'', ''Z8''], Z8 fromPauliRotation),
      (Path [''Gates'', ''OtherZ'', ''Z8i''], Z8i fromPauliRotation),
      (Path [''Gates'', ''OtherZ'', ''Z16''], Z16 fromPauliRotation),
      (Path [''Gates'', ''OtherZ'', ''Z16i''], Z16i fromPauliRotation)]"

record GateSet =
  hint :: string
  gates :: "gate_ref option list"

definition Sets :: "GateSet list" where
  "Sets =
     [\<lparr>hint = ''Probes'',
       gates =
         [Some (Path [''Gates'', ''Special'', ''Measurement'']),
          Some (Path [''PostSelectionGates'', ''PostSelectOff'']),
          Some (Path [''Gates'', ''Special'', ''AntiControl'']), None,
          Some (Path [''PostSelectionGates'', ''PostSelectOn'']),
          Some (Path [''Gates'', ''Special'', ''Control''])]\<rparr>,
      \<lparr>hint = ''Displays'',
       gates =
         [Some (OfSize [''SampleDisplayFamily''] 3),
          Some (OfSize [''DensityMatrixDisplayFamily''] 1),
          Some (OfSize [''ProbabilityDisplayFamily''] 1), None,
          Some (Path [''Gates'', ''Displays'', ''BlochSphereDisplay'']),
          Some (OfSize [''AmplitudeDisplayFamily''] 2)]\<rparr>,
      \<lparr>hint = ''Half Turns'',
       gates =
         [Some (Path [''HalfTurnGates'', ''Z'']),
          Some (Path [''HalfTurnGates'', ''Y'']),
          Some (Path [''HalfTurnGates'', ''X'']),
          Some (Path [''Gates'', ''Special'', ''SwapHalf'']), None,
          Some (Path [''HalfTurnGates'', ''H''])]\<rparr>,
      \<lparr>hint = ''Quarter Turns'',
       gates =
         [Some (Path [''Gates'', ''QuarterTurns'', ''SqrtZForward'']),
          Some (Path [''Gates'', ''QuarterTurns'', ''SqrtYForward'']),
          Some (Path [''Gates'', ''QuarterTurns'', ''SqrtXForward'']),
          Some (Path [''Gates'', ''QuarterTurns'', ''SqrtZBackward'']),
          Some (Path [''Gates'', ''QuarterTurns'', ''SqrtYBackward'']),
          Some (Path [''Gates'', ''QuarterTurns'', ''SqrtXBackward''])]\<rparr>,
      \<lparr>hint = ''Eighth Turns'',
       gates =
         [Some (Path [''Gates'', ''OtherZ'', ''Z4'']),
          Some (Path [''Gates'', ''OtherY'', ''Y4'']),
          Some (Path [''Gates'', ''OtherX'', ''X4'']),
          Some (Path [''Gates'', ''OtherZ'', ''Z4i'']),
          Some (Path [''Gates'', ''OtherY'', ''Y4i'']),
          Some (Path [''Gates'', ''OtherX'', ''X4i''])]\<rparr>,
      \<lparr>hint = ''Misc'',
       gates =
         [Some (OfSize [''PhaseGradientGates'', ''PhaseGradientFamily''] 2), None,
          Some (OfSize [''Gates'', ''FourierTransformFamily''] 2),
          Some (OfSize [''PhaseGradientGates'', ''PhaseDegradientFamily''] 2),
          Some (Made [''Gates'', ''Misc'', ''MysteryGateMaker'']),
          Some (Path [''Gates'', ''Misc'', ''SpacerGate''])]\<rparr>,
      \<lparr>hint = ''Arithmetic'',
       gates =
         [Some (OfSize [''ArithmeticGates'', ''CountingFamily''] 2),
          Some (OfSize [''ArithmeticGates'', ''AdditionFamily''] 4),
          Some (OfSize [''ArithmeticGates'', ''IncrementFamily''] 2),
          Some (OfSize [''ArithmeticGates'', ''UncountingFamily''] 2),
          Some (OfSize [''ArithmeticGates'', ''SubtractionFamily''] 4),
          Some (OfSize [''ArithmeticGates'', ''DecrementFamily''] 2)]\<rparr>,
      \<lparr>hint = ''Raising'',
       gates =
         [Some (Path [''PoweringGates'', ''ZForward'']),
          Some (Path [''PoweringGates'', ''YForward'']),
          Some (Path [''PoweringGates'', ''XForward'']),
          Some (Path [''PoweringGates'', ''ZBackward'']),
          Some (Path [''PoweringGates'', ''YBackward'']),
          Some (Path [''PoweringGates'', ''XBackward''])]\<rparr>,
      \<lparr>hint = ''Exponentiating'',
       gates =
         [Some (Path [''ExponentiatingGates'', ''ZForward'']),
          Some (Path [''ExponentiatingGates'', ''YForward'']),
          Some (Path [''ExponentiatingGates'', ''XForward'']),
          Some (Path [''ExponentiatingGates'', ''ZBackward'']),
          Some (Path [''ExponentiatingGates'', ''YBackward'']),
          Some (Path [''ExponentiatingGates'', ''XBackward''])]\<rparr>,
      \<lparr>hint = ''Other X'',
       gates =
         [Some (Path [''Gates'', ''OtherX'', ''X16'']),
          Some (Path [''Gates'', ''OtherX'', ''X8'']),
          Some (Path [''Gates'', ''OtherX'', ''X3'']),
          Some (Path [''Gates'', ''OtherX'', ''X16i'']),
          Some (Path [''Gates'', ''OtherX'', ''X8i'']),
          Some (Path [''Gates'', ''OtherX'', ''X3i''])]\<rparr>,
      \<lparr>hint = ''Other Y'',
       gates =
         [Some (Path [''Gates'', ''OtherY'', ''Y16'']),
          Some (Path [''Gates'', ''OtherY'', ''Y8'']),
          Some (Path [''Gates'', ''OtherY'', ''Y3'']),
          Some (Path [''Gates'', ''OtherY'', ''Y16i'']),
          Some (Path [''Gates'', ''OtherY'', ''Y8i'']),
          Some (Path [''Gates'', ''OtherY'', ''Y3i''])]\<rparr>,
      \<lparr>hint = ''Other Z'',
       gates =
         [Some (Path [''Gates'', ''OtherZ'', ''Z16'']),
          Some (Path [''Gates'', ''OtherZ'', ''Z8'']),
          Some (Path [''Gates'', ''OtherZ'', ''Z3'']),
          Some (Path [''Gates'', ''OtherZ'', ''Z16'']),
          Some (Path [''Gates'', ''OtherZ'', ''Z8i'']),
          Some (Path [''Gates'', ''OtherZ'', ''Z3i''])]\<rparr>]"

text \<open>
  The members of a family, in order of size. The two families of this module are made
  for sizes 1 to 16 and 2 to 16; the range of every other family is a parameter.
\<close>

definition family_all :: "(string list \<Rightarrow> nat \<times> nat) \<Rightarrow> string list \<Rightarrow> gate_ref list" where
  "family_all otherRanges fam =
     (let (lo, hi) =
            (if fam = [''Gates'', ''FourierTransformFamily''] then (1, 16)
             else if fam = [''Gates'', ''ExperimentalAndImplausible'', ''CycleBitsFamily'']
             then (2, 16)
             else otherRanges fam)
      in map (OfSize fam) [lo..<Suc hi])"

definition KnownToSerializer :: "(string list \<Rightarrow> nat \<times> nat) \<Rightarrow> gate_ref list" where
  "KnownToSerializer otherRanges =
     [Path [''Gates'', ''Special'', ''Control''],
        Path [''Gates'', ''Special'', ''AntiControl''],
        Path [''Gates'', ''Special'', ''Measurement''],
        Path [''Gates'', ''Special'', ''SwapHalf''],
        Path [''PostSelectionGates'', ''PostSelectOff''],
        Path [''PostSelectionGates'', ''PostSelectOn''],
        Path [''PostSelectionGates'', ''PostSelectPlus''],
        Path [''PostSelectionGates'', ''PostSelectMinus'']]
     @ family_all otherRanges [''AmplitudeDisplayFamily'']
     @ family_all otherRanges [''ProbabilityDisplayFamily'']
     @ family_all otherRanges [''SampleDisplayFamily'']
     @ family_all otherRanges [''DensityMatrixDisplayFamily'']
     @ [Path [''Gates'', ''Displays'', ''BlochSphereDisplay''],
        Path [''Gates'', ''Misc'', ''SpacerGate''],
        Path [''Gates'', ''Misc'', ''ClockPulseGate''],
        Path [''Gates'', ''Misc'', ''QuarterPhaseClockPulseGate''],
        Path [''HalfTurnGates'', ''H''], Path [''HalfTurnGates'', ''X''],
        Path [''HalfTurnGates'', ''Y''], Path [''HalfTurnGates'', ''Z''],
        Path [''Gates'', ''QuarterTurns'', ''SqrtXForward''],
        Path [''Gates'', ''QuarterTurns'', ''SqrtYForward''],
        Path [''Gates'', ''QuarterTurns'', ''SqrtZForward''],
        Path [''Gates'', ''QuarterTurns'', ''SqrtXBackward''],
        Path [''Gates'', ''QuarterTurns'', ''SqrtYBackward''],
        Path [''Gates'', ''QuarterTurns'', ''SqrtZBackward''],
        Path [''PoweringGates'', ''XForward''],
        Path [''PoweringGates'', ''YForward''],
        Path [''PoweringGates'', ''ZForward''],
        Path [''PoweringGates'', ''XBackward''],
        Path [''PoweringGates'', ''YBackward''],
        Path [''PoweringGates'', ''ZBackward''],
        Path [''ExponentiatingGates'', ''XBackward''],
        Path [''ExponentiatingGates'', ''YBackward''],
        Path [''ExponentiatingGates'', ''ZBackward''],
        Path [''ExponentiatingGates'', ''XForward''],
        Path [''ExponentiatingGates'', ''YForward''],
        Path [''ExponentiatingGates'', ''ZForward''],
        Path [''Gates'', ''OtherX'', ''X3''], Path [''Gates'', ''OtherX'', ''X4''],
        Path [''Gates'', ''OtherX'', ''X8''], Path [''Gates'', ''OtherX'', ''X16''],
        Path [''Gates'', ''OtherX'', ''X3i''], Path [''Gates'', ''OtherX'', ''X4i''],
        Path [''Gates'', ''OtherX'', ''X8i''], Path [''Gates'', ''OtherX'', ''X16i''],
        Path [''Gates'', ''OtherY'', ''Y3''], Path [''Gates'', ''OtherY'', ''Y4''],
        Path [''Gates'', ''OtherY'', ''Y8''], Path [''Gates'', ''OtherY'', ''Y16''],
        Path [''Gates'', ''OtherY'', ''Y3i''], Path [''Gates'', ''OtherY'', ''Y4i''],
        Path [''Gates'', ''OtherY'', ''Y8i''], Path [''Gates'', ''OtherY'', ''Y16i''],
        Path [''Gates'', ''OtherZ'', ''Z3''], Path [''Gates'', ''OtherZ'', ''Z4''],
        Path [''Gates'', ''OtherZ'', ''Z8''], Path [''Gates'', ''OtherZ'', ''Z16''],
        Path [''Gates'', ''OtherZ'', ''Z3i''], Path [''Gates'', ''OtherZ'', ''Z4i''],
        Path [''Gates'', ''OtherZ'', ''Z8i''], Path [''Gates'', ''OtherZ'', ''Z16i'']]
     @ family_all otherRanges [''ArithmeticGates'', ''IncrementFamily'']
     @ family_all otherRanges [''ArithmeticGates'', ''DecrementFamily'']
     @ family_all otherRanges [''ArithmeticGates'', ''AdditionFamily'']
     @ family_all otherRanges [''ArithmeticGates'', ''SubtractionFamily'']
     @ family_all otherRanges [''ArithmeticGates'', ''CountingFamily'']
     @ family_all otherRanges [''ArithmeticGates'', ''UncountingFamily'']
     @ family_all otherRanges [''Gates'', ''FourierTransformFamily'']
     @ family_all otherRanges [''PhaseGradientGates'', ''PhaseGradientFamily'']
     @ family_all otherRanges [''PhaseGradientGates'', ''PhaseDegradientFamily'']
     @ [Path [''Gates'', ''ExperimentalAndImplausible'', ''UniversalNot''],
        Path [''Gates'', ''ExperimentalAndImplausible'', ''ErrorInjection'']]
     @ family_all otherRanges [''Gates'', ''ExperimentalAndImplausible'', ''CycleBitsFamily'']"

text \<open>The positions at which a reference stands in a list of table entries.\<close>

definition positions_of :: "gate_ref \<Rightarrow> gate_ref option list \<Rightarrow> nat list" where
  "positions_of r entries = filter (\<lambda>i. entries ! i = Some r) [0..<length entries]"

section \<open>Facts about families and decimal numbers\<close>

lemma number_toString_upto_16:
  "map number_toString [1..<17] =
     [''1'', ''2'', ''3'', ''4'', ''5'', ''6'', ''7'', ''8'', ''9'', ''10'', ''11'', ''12'',
      ''13'', ''14'', ''15'', ''16'']"
  by (simp add: upt_conv_Cons number_toString.simps digit_char_def)

lemma ofSize_generateFamily:
  "ofSize (generateFamily lo hi gen) spn =
     (if lo \<le> spn \<and> spn \<le> hi then Some (gen spn) else None)"
  by (auto simp add: ofSize_def generateFamily_def map_of_map_restrict restrict_map_def)

lemma all_generateFamily_nth:
  "lo \<le> spn \<Longrightarrow> spn \<le> hi \<Longrightarrow> all (generateFamily lo hi gen) ! (spn - lo) = gen spn"
  by (simp add: generateFamily_def del: upt_Suc)

lemma FourierTransformGate_fields:
  "customShaders (FourierTransformGate spn) =
     Some (map (\<lambda>i. \<lambda>val con bit.
               Inr (CircuitShaders_swap val (bit + int i) (bit + int spn - int i - 1) con))
            [0..<spn div 2]
        @ map (\<lambda>i. \<lambda>val con bit. Inr (GateShaders_fourierTransformStep val con bit (int i)))
            [0..<spn])"
  "gateHeight (FourierTransformGate spn) = spn"
  "serializedId (FourierTransformGate spn) = ''QFT'' @ number_toString spn"
  "matrixOrFunc (FourierTransformGate spn) =
     (if 4 \<le> spn then None else Some (KnownMatrix (FOURIER_TRANSFORM_MATRIX_MAKER spn)))"
  by (simp_all add: FourierTransformGate_def withCustomShaders_def withHeight_def
      withSerializedId_def withKnownMatrix_def markedAsStable_def withoutKnownMatrix_def)

lemma all_FourierTransformFamily:
  "all FourierTransformFamily = map FourierTransformGate [1..<17]"
  by (simp add: FourierTransformFamily_def generateFamily_def del: upt_Suc)

section \<open>The kernel list of the Fourier transform\<close>

text \<open>
  Claim C1. For every span from 1 to 16 the Fourier transform gate of that span, as the
  family hands it out, has a kernel list of exactly \<open>span div 2\<close> swap passes followed by
  exactly \<open>span\<close> Fourier transform steps. Called on a bit index, the i-th swap pass swaps
  the bits at offsets \<open>i\<close> and \<open>span - 1 - i\<close> from it, and the i-th step pass runs step
  \<open>i\<close>. From span 4 on the gate has no matrix.
\<close>

theorem FourierTransformFamily_kernel_list:
  assumes "1 \<le> spn" and "spn \<le> 16"
  shows "\<exists>g ks. ofSize FourierTransformFamily spn = Some g
           \<and> all FourierTransformFamily ! (spn - 1) = g
           \<and> customShaders g = Some ks
           \<and> length ks = spn div 2 + spn
           \<and> (\<forall>i < spn div 2. \<forall>val con bit.
                 (ks ! i) val con bit
                   = Inr (CircuitShaders_swap val (bit + int i) (bit + int spn - 1 - int i) con))
           \<and> (\<forall>i < spn. \<forall>val con bit.
                 (ks ! (spn div 2 + i)) val con bit
                   = Inr (GateShaders_fourierTransformStep val con bit (int i)))
           \<and> (4 \<le> spn \<longrightarrow> matrixOrFunc g = None)"
proof -
  let ?g = "FourierTransformGate spn"
  have "ofSize FourierTransformFamily spn = Some ?g"
    using assms by (simp add: FourierTransformFamily_def ofSize_generateFamily)
  moreover have "all FourierTransformFamily ! (spn - 1) = ?g"
    using assms all_generateFamily_nth [of 1 spn 16 FourierTransformGate]
    by (simp add: FourierTransformFamily_def)
  ultimately show ?thesis
    by (simp add: FourierTransformGate_fields nth_append)
qed

theorem FourierTransformFamily_kernel_list_witness:
  "(1::nat) \<le> 5 \<and> (5::nat) \<le> 16
   \<and> (\<exists>g ks. ofSize FourierTransformFamily 5 = Some g \<and> customShaders g = Some ks
         \<and> length ks = 7 \<and> matrixOrFunc g = None
         \<and> (ks ! 1) (WglTexture_new 4 8 GL_FLOAT) (WglTexture_new 4 8 GL_UNSIGNED_BYTE) 0
             = Inr (CircuitShaders_swap (WglTexture_new 4 8 GL_FLOAT) 1 3
                      (WglTexture_new 4 8 GL_UNSIGNED_BYTE))
         \<and> (ks ! 6) (WglTexture_new 4 8 GL_FLOAT) (WglTexture_new 4 8 GL_UNSIGNED_BYTE) 0
             = Inr (GateShaders_fourierTransformStep (WglTexture_new 4 8 GL_FLOAT)
                      (WglTexture_new 4 8 GL_UNSIGNED_BYTE) 0 4))"
  using FourierTransformFamily_kernel_list [of 5]
  apply simp
  apply (elim exE conjE)
  subgoal for ks
    apply (drule spec [of _ 1])
    apply (drule spec [of _ 4])
    apply simp
    done
  done

section \<open>The serialization ids of the Fourier transform family\<close>

text \<open>
  Claim C2. The Fourier transform family has 16 members, made for the spans 1 to 16 in
  order. Their serialization ids are the 16 distinct strings \<open>QFT1\<close> to \<open>QFT16\<close>, the
  member with id \<open>QFT\<close> followed by the span in decimal has that span as its height, and
  looking a span up in the family gives that member.
\<close>

theorem FourierTransformFamily_serialized_ids:
  "length (all FourierTransformFamily) = 16
   \<and> map serializedId (all FourierTransformFamily)
       = [''QFT1'', ''QFT2'', ''QFT3'', ''QFT4'', ''QFT5'', ''QFT6'', ''QFT7'', ''QFT8'',
          ''QFT9'', ''QFT10'', ''QFT11'', ''QFT12'', ''QFT13'', ''QFT14'', ''QFT15'', ''QFT16'']
   \<and> distinct (map serializedId (all FourierTransformFamily))
   \<and> map (\<lambda>g. (serializedId g, gateHeight g)) (all FourierTransformFamily)
       = map (\<lambda>spn. (''QFT'' @ number_toString spn, spn)) [1..<17]
   \<and> map (ofSize FourierTransformFamily) [1..<17] = map Some (all FourierTransformFamily)"
proof -
  have ids: "map serializedId (all FourierTransformFamily)
       = map (\<lambda>s. ''QFT'' @ s) (map number_toString [1..<17])"
    by (simp add: all_FourierTransformFamily FourierTransformGate_fields comp_def del: upt_Suc)
  have ids': "map serializedId (all FourierTransformFamily)
       = [''QFT1'', ''QFT2'', ''QFT3'', ''QFT4'', ''QFT5'', ''QFT6'', ''QFT7'', ''QFT8'',
          ''QFT9'', ''QFT10'', ''QFT11'', ''QFT12'', ''QFT13'', ''QFT14'', ''QFT15'', ''QFT16'']"
    unfolding ids number_toString_upto_16 by simp
  have d: "distinct (map serializedId (all FourierTransformFamily))"
    unfolding ids' by simp
  have len: "length (all FourierTransformFamily) = 16"
    by (simp add: all_FourierTransformFamily del: upt_Suc)
  have pairs: "map (\<lambda>g. (serializedId g, gateHeight g)) (all FourierTransformFamily)
       = map (\<lambda>spn. (''QFT'' @ number_toString spn, spn)) [1..<17]"
    by (simp add: all_FourierTransformFamily FourierTransformGate_fields comp_def del: upt_Suc)
  have look: "map (ofSize FourierTransformFamily) [1..<17] = map Some (all FourierTransformFamily)"
    unfolding all_FourierTransformFamily
    by (simp add: FourierTransformFamily_def ofSize_generateFamily del: upt_Suc)
  from len ids' d pairs look show ?thesis by blast
qed

section \<open>The Fourier transform of one qubit\<close>

lemma FOURIER_TRANSFORM_MATRIX_MAKER_1:
  "FOURIER_TRANSFORM_MATRIX_MAKER (Suc 0) =
     [[1 / sqrt 2, 1 / sqrt 2], [1 / sqrt 2, - (1 / sqrt 2)]]"
  by (simp add: FOURIER_TRANSFORM_MATRIX_MAKER_def Matrix_generate_def js_shl_def
      Complex_polar_def \<tau>_def upt_conv_Cons powr_half_sqrt real_sqrt_divide)

lemma ofSize_FourierTransformFamily_1:
  "ofSize FourierTransformFamily (Suc 0) = Some (FourierTransformGate (Suc 0))"
  by (simp add: FourierTransformFamily_def ofSize_generateFamily)

lemma applyGateAt_FourierTransformGate_1:
  "applyGateAt (FourierTransformGate (Suc 0)) t [a, b] =
     Some [(a + b) / sqrt 2, (a - b) / sqrt 2]"
  by (simp add: applyGateAt_def matrixAt_def FourierTransformGate_fields
      FOURIER_TRANSFORM_MATRIX_MAKER_1 applyMatrix_def add_divide_distrib diff_divide_distrib)

text \<open>
  Claim C3, as stated, fails. The gate of span 1 sends the state \<open>(1, 0)\<close> to
  \<open>(1 / sqrt 2, 1 / sqrt 2)\<close>, whose second amplitude is further than the tolerance
  \<open>1 / 1000000\<close> from that of the input.
\<close>

theorem FourierTransform_ofSize_1_not_identity:
  "applyGateAt (the (ofSize FourierTransformFamily 1)) 0 [1, 0] = Some [1 / sqrt 2, 1 / sqrt 2]
   \<and> cmod (the (applyGateAt (the (ofSize FourierTransformFamily 1)) 0 [1, 0]) ! 1 - [1, 0] ! 1)
       > 1 / 1000000"
proof -
  have "applyGateAt (FourierTransformGate (Suc 0)) 0 [1, 0] = Some [1 / sqrt 2, 1 / sqrt 2]"
    by (simp add: applyGateAt_FourierTransformGate_1)
  moreover have "(1 / 1000000 :: real) < 1 / sqrt 2"
  proof -
    have "sqrt 2 < sqrt 4" by (simp only: real_sqrt_less_iff)
    then have "sqrt 2 < 2" by simp
    then have "1 / 2 < 1 / sqrt 2" by (simp add: field_simps)
    then show ?thesis by simp
  qed
  ultimately show ?thesis
    by (simp add: ofSize_FourierTransformFamily_1 norm_divide)
qed

text \<open>
  Claim C3, amended. The Fourier transform gate of span 1 has the matrix with rows
  \<open>(1 / sqrt 2, 1 / sqrt 2)\<close> and \<open>(1 / sqrt 2, - 1 / sqrt 2)\<close>: it sends every state
  \<open>(a, b)\<close> to \<open>((a + b) / sqrt 2, (a - b) / sqrt 2)\<close>, at every time. Its kernel list is
  the single Fourier transform step of index 0.
\<close>

theorem FourierTransform_ofSize_1_is_Hadamard:
  "\<exists>g k. ofSize FourierTransformFamily 1 = Some g
     \<and> matrixOrFunc g = Some (KnownMatrix [[1 / sqrt 2, 1 / sqrt 2], [1 / sqrt 2, - (1 / sqrt 2)]])
     \<and> applyGateAt g t [a, b] = Some [(a + b) / sqrt 2, (a - b) / sqrt 2]
     \<and> customShaders g = Some [k]
     \<and> k val con bitIndex = Inr (GateShaders_fourierTransformStep val con bitIndex 0)"
  by (simp add: ofSize_FourierTransformFamily_1 applyGateAt_FourierTransformGate_1
      FourierTransformGate_fields FOURIER_TRANSFORM_MATRIX_MAKER_1)

section \<open>The mystery gate\<close>

lemma MysteryGateMaker_eq:
  "MysteryGateMaker cu src =
     (MysteryGateMakerWithMatrix
        (cu (Matrix_square4
               (Complex (src !! 0 - 0.5) (src !! 1 - 0.5))
               (Complex (src !! 2 - 0.5) (src !! 3 - 0.5))
               (Complex (src !! 4 - 0.5) (src !! 5 - 0.5))
               (Complex (src !! 6 - 0.5) (src !! 7 - 0.5)))),
      sdrop 8 src)"
  by (simp add: MysteryGateMaker_def Math_random_def eval_nat_numeral)

lemma MysteryGateMakerWithMatrix_fields:
  "matrixOrFunc (MysteryGateMakerWithMatrix m) = Some (KnownMatrix m)"
  "customShaders (MysteryGateMakerWithMatrix m) = None"
  by (simp_all add: MysteryGateMakerWithMatrix_def withCustomDrawer_def fromKnownMatrix_def
      withoutKnownMatrix_def)

lemma stake_8_snth:
  assumes "stake 8 s = stake 8 s'" and "i < 8"
  shows "s !! i = s' !! i"
proof -
  have "stake 8 s ! i = s !! i" "stake 8 s' ! i = s' !! i"
    using assms(2) by simp_all
  with assms(1) show ?thesis by simp
qed

lemma isUnitary_identity_2: "isUnitary (Matrix_identity 2)"
  by (simp add: isUnitary_def Matrix_identity_def Matrix_times_def Matrix_adjoint_def
      upt_conv_Cons transpose.simps)

text \<open>
  A gate of varying matrix does depend on the time at which it is applied.
\<close>

lemma ClockPulseGate_varies:
  "applyGateAt ClockPulseGate 0 [1, 0] \<noteq> applyGateAt ClockPulseGate (1 / 2) [1, 0]"
  by (simp add: applyGateAt_def matrixAt_def ClockPulseGate_def withStableDuration_def
      withCustomDrawer_def fromVaryingMatrix_def withoutKnownMatrix_def js_rem_def
      Matrix_identity_def PAULI_X_def applyMatrix_def upt_conv_Cons)

text \<open>
  Claim C5. Making a mystery gate draws the next eight numbers of the random source, in
  order, and leaves the source advanced by eight. The gate made has one static matrix,
  the closest unitary of the matrix of the four complex numbers drawn, and no kernel
  list. Applying it gives the product with that matrix at every time, so equal inputs
  give equal outputs at any two times; and the gate made depends on the eight numbers
  drawn only. The closest unitary is taken to be unitary.
\<close>

theorem MysteryGateMaker_randomness_at_construction:
  assumes "\<forall>m. isUnitary (closestUnitary m)"
  shows "\<exists>g m. MysteryGateMaker closestUnitary src = (g, sdrop 8 src)
           \<and> matrixOrFunc g = Some (KnownMatrix m)
           \<and> customShaders g = None
           \<and> isUnitary m
           \<and> m = closestUnitary (Matrix_square4
                    (Complex (src !! 0 - 0.5) (src !! 1 - 0.5))
                    (Complex (src !! 2 - 0.5) (src !! 3 - 0.5))
                    (Complex (src !! 4 - 0.5) (src !! 5 - 0.5))
                    (Complex (src !! 6 - 0.5) (src !! 7 - 0.5)))
           \<and> (\<forall>t v. applyGateAt g t v = Some (applyMatrix m v))
           \<and> (\<forall>t1 t2 v1 v2. v1 = v2 \<longrightarrow> applyGateAt g t1 v1 = applyGateAt g t2 v2)
           \<and> (\<forall>src'. stake 8 src' = stake 8 src
                 \<longrightarrow> fst (MysteryGateMaker closestUnitary src') = g)"
proof -
  let ?m = "closestUnitary (Matrix_square4
                    (Complex (src !! 0 - 0.5) (src !! 1 - 0.5))
                    (Complex (src !! 2 - 0.5) (src !! 3 - 0.5))
                    (Complex (src !! 4 - 0.5) (src !! 5 - 0.5))
                    (Complex (src !! 6 - 0.5) (src !! 7 - 0.5)))"
  let ?g = "MysteryGateMakerWithMatrix ?m"
  have made: "MysteryGateMaker closestUnitary src = (?g, sdrop 8 src)"
    by (rule MysteryGateMaker_eq)
  have again: "\<forall>src'. stake 8 src' = stake 8 src
          \<longrightarrow> fst (MysteryGateMaker closestUnitary src') = ?g"
  proof (intro allI impI)
    fix src' assume e: "stake 8 src' = stake 8 src"
    have eqs: "src' !! 0 = src !! 0" "src' !! 1 = src !! 1" "src' !! 2 = src !! 2"
      "src' !! 3 = src !! 3" "src' !! 4 = src !! 4" "src' !! 5 = src !! 5"
      "src' !! 6 = src !! 6" "src' !! 7 = src !! 7"
      by (rule stake_8_snth [OF e], simp)+
    show "fst (MysteryGateMaker closestUnitary src') = ?g"
      unfolding MysteryGateMaker_eq fst_conv eqs ..
  qed
  have unitary: "isUnitary ?m"
    using assms by blast
  have app: "\<forall>t v. applyGateAt ?g t v = Some (applyMatrix ?m v)"
    by (simp add: MysteryGateMakerWithMatrix_fields applyGateAt_def matrixAt_def)
  then have det: "\<forall>t1 t2 v1 v2. v1 = v2 \<longrightarrow> applyGateAt ?g t1 v1 = applyGateAt ?g t2 v2"
    by simp
  have fields: "matrixOrFunc ?g = Some (KnownMatrix ?m)" "customShaders ?g = None"
    by (rule MysteryGateMakerWithMatrix_fields)+
  show ?thesis
    apply (rule exI [of _ ?g])
    apply (rule exI [of _ ?m])
    apply (intro conjI)
           apply (rule made)
          apply (rule fields(1))
         apply (rule fields(2))
        apply (rule unitary)
       apply (rule refl)
      apply (rule app)
     apply (rule det)
    apply (rule again)
    done
qed

theorem MysteryGateMaker_randomness_at_construction_witness:
  "(\<forall>m. isUnitary ((\<lambda>m. Matrix_identity 2) m))
   \<and> stake 8 (replicate 8 (1 / 4) @- sconst (3 / 4)) = stake 8 (sconst (1 / 4 :: real))
   \<and> (\<exists>g. MysteryGateMaker (\<lambda>m. Matrix_identity 2) (sconst (1 / 4)) = (g, sconst (1 / 4))
         \<and> matrixOrFunc g = Some (KnownMatrix (Matrix_identity 2))
         \<and> applyGateAt g 0 [1, 0] = applyGateAt g (1 / 2) [1, 0]
         \<and> fst (MysteryGateMaker (\<lambda>m. Matrix_identity 2) (replicate 8 (1 / 4) @- sconst (3 / 4)))
             = g)"
proof -
  have u: "\<forall>m. isUnitary ((\<lambda>m. Matrix_identity 2) m)"
    by (simp add: isUnitary_identity_2)
  have s: "stake 8 (replicate 8 (1 / 4) @- sconst (3 / 4)) = stake 8 (sconst (1 / 4 :: real))"
    by (simp add: eval_nat_numeral)
  from MysteryGateMaker_randomness_at_construction
         [of "\<lambda>m. Matrix_identity 2" "sconst (1 / 4)", OF u]
  obtain g m where
    g: "MysteryGateMaker (\<lambda>m. Matrix_identity 2) (sconst (1 / 4)) = (g, sdrop 8 (sconst (1 / 4)))"
    and m: "matrixOrFunc g = Some (KnownMatrix m)"
    and mm: "m = Matrix_identity 2"
    and a: "\<forall>t1 t2 v1 v2. v1 = v2 \<longrightarrow> applyGateAt g t1 v1 = applyGateAt g t2 v2"
    and b: "\<forall>src'. stake 8 src' = stake 8 (sconst (1 / 4))
                 \<longrightarrow> fst (MysteryGateMaker (\<lambda>m. Matrix_identity 2) src') = g"
    by blast
  have "applyGateAt g 0 [1, 0] = applyGateAt g (1 / 2) [1, 0]"
    using a by blast
  moreover have "fst (MysteryGateMaker (\<lambda>m. Matrix_identity 2) (replicate 8 (1 / 4) @- sconst (3 / 4))) = g"
    using b s by blast
  ultimately show ?thesis
    using u s g m mm by simp
qed

section \<open>The error injection gate\<close>

lemma ErrorInjection_customShaders:
  "customShaders ErrorInjection =
     Some [\<lambda>inputTex controlTex qubit.
             Inl (DetailedError ''Applied an Error Injection Gate'' [(''qubit'', qubit)])]"
  by (simp add: ErrorInjection_def withCustomDrawer_def withSerializedId_def
      withCustomShader_def withCustomShaders_def markedAsStable_def withoutKnownMatrix_def)

text \<open>
  Claim C6. The error injection gate has one kernel. On every input texture, control
  texture and qubit index it throws the detailed error \<open>Applied an Error Injection Gate\<close>
  with the qubit as detail, and returns no shader. The error is an exception: a handler
  around the call receives it and the continuation does not run.
\<close>

theorem ErrorInjection_always_throws:
  "\<exists>k. customShaders ErrorInjection = Some [k]
     \<and> k inputTex controlTex qubit
         = Inl (DetailedError ''Applied an Error Injection Gate'' [(''qubit'', qubit)])
     \<and> (\<forall>out. k inputTex controlTex qubit \<noteq> Inr out)
     \<and> try_catch (k inputTex controlTex qubit) handler continue
         = handler (DetailedError ''Applied an Error Injection Gate'' [(''qubit'', qubit)])"
  by (simp add: ErrorInjection_customShaders try_catch_def)

section \<open>The group of other roots of Z\<close>

lemma Other_Z_entry:
  "filter (\<lambda>s. hint s = ''Other Z'') Sets =
     [\<lparr>hint = ''Other Z'',
       gates = [Some (Path [''Gates'', ''OtherZ'', ''Z16'']),
                Some (Path [''Gates'', ''OtherZ'', ''Z8'']),
                Some (Path [''Gates'', ''OtherZ'', ''Z3'']),
                Some (Path [''Gates'', ''OtherZ'', ''Z16'']),
                Some (Path [''Gates'', ''OtherZ'', ''Z8i'']),
                Some (Path [''Gates'', ''OtherZ'', ''Z3i''])]\<rparr>]"
  by (simp add: Sets_def)

lemma Z16i_nowhere_in_Sets:
  "filter (\<lambda>s. Some (Path [''Gates'', ''OtherZ'', ''Z16i'']) \<in> set (gates s)) Sets = []"
  by (simp add: Sets_def)

lemma Z16i_KnownToSerializer:
  "Path [''Gates'', ''OtherZ'', ''Z16i''] \<in> set (KnownToSerializer otherRanges)"
  by (simp add: KnownToSerializer_def)

lemma Z16_Z16i_fields:
  "blurb (Z16i rot) = ''Adjoint sixteenth root of Z.''"
  "matrixOrFunc (Z16i rot) = Some (KnownMatrix (rot 0 0 (- 1 / 32)))"
  "blurb (Z16 rot) = ''Principle sixteenth root of Z.''"
  by (simp_all add: Z16i_def Z16_def fromKnownMatrix_def withoutKnownMatrix_def)

text \<open>
  Claim C9. The table of gate sets has one group with hint \<open>Other Z\<close>. In it the
  reference to \<open>Z16\<close> stands at positions 0 and 3 and the reference to \<open>Z16i\<close> at none
  (nor does it stand in any other group), although \<open>Z16i\<close> is a gate of its own, stored
  beside \<open>Z16\<close> with the blurb of the adjoint sixteenth root of Z and the rotation by
  \<open>- 1 / 32\<close>, and the list of gates known to the serializer holds it.
\<close>

theorem Other_Z_lists_Z16_twice:
  "(\<exists>entry. filter (\<lambda>s. hint s = ''Other Z'') Sets = [entry]
      \<and> positions_of (Path [''Gates'', ''OtherZ'', ''Z16'']) (gates entry) = [0, 3]
      \<and> positions_of (Path [''Gates'', ''OtherZ'', ''Z16i'']) (gates entry) = [])
   \<and> filter (\<lambda>s. Some (Path [''Gates'', ''OtherZ'', ''Z16i'']) \<in> set (gates s)) Sets = []
   \<and> map_of (OtherZ fromPauliRotation) (Path [''Gates'', ''OtherZ'', ''Z16i''])
       = Some (Z16i fromPauliRotation)
   \<and> map_of (OtherZ fromPauliRotation) (Path [''Gates'', ''OtherZ'', ''Z16''])
       = Some (Z16 fromPauliRotation)
   \<and> Z16i fromPauliRotation \<noteq> Z16 fromPauliRotation
   \<and> blurb (Z16i fromPauliRotation) = ''Adjoint sixteenth root of Z.''
   \<and> matrixOrFunc (Z16i fromPauliRotation) = Some (KnownMatrix (fromPauliRotation 0 0 (- 1 / 32)))
   \<and> Path [''Gates'', ''OtherZ'', ''Z16i''] \<in> set (KnownToSerializer otherRanges)"
proof -
  have ne: "Z16i fromPauliRotation \<noteq> Z16 fromPauliRotation"
  proof
    assume "Z16i fromPauliRotation = Z16 fromPauliRotation"
    then have "blurb (Z16i fromPauliRotation) = blurb (Z16 fromPauliRotation)" by simp
    then show False by (simp add: Z16_Z16i_fields)
  qed
  have pos: "positions_of (Path [''Gates'', ''OtherZ'', ''Z16''])
        [Some (Path [''Gates'', ''OtherZ'', ''Z16'']),
                Some (Path [''Gates'', ''OtherZ'', ''Z8'']),
                Some (Path [''Gates'', ''OtherZ'', ''Z3'']),
                Some (Path [''Gates'', ''OtherZ'', ''Z16'']),
                Some (Path [''Gates'', ''OtherZ'', ''Z8i'']),
                Some (Path [''Gates'', ''OtherZ'', ''Z3i''])] = [0, 3]"
    by (simp add: positions_of_def upt_conv_Cons)
  have posi: "positions_of (Path [''Gates'', ''OtherZ'', ''Z16i''])
        [Some (Path [''Gates'', ''OtherZ'', ''Z16'']),
                Some (Path [''Gates'', ''OtherZ'', ''Z8'']),
                Some (Path [''Gates'', ''OtherZ'', ''Z3'']),
                Some (Path [''Gates'', ''OtherZ'', ''Z16'']),
                Some (Path [''Gates'', ''OtherZ'', ''Z8i'']),
                Some (Path [''Gates'', ''OtherZ'', ''Z3i''])] = []"
    by (simp add: positions_of_def upt_conv_Cons)
  have m: "map_of (OtherZ fromPauliRotation) (Path [''Gates'', ''OtherZ'', ''Z16i''])
       = Some (Z16i fromPauliRotation)"
     "map_of (OtherZ fromPauliRotation) (Path [''Gates'', ''OtherZ'', ''Z16''])
       = Some (Z16 fromPauliRotation)"
    by (simp_all add: OtherZ_def)
  show ?thesis
    unfolding Other_Z_entry
    using ne pos posi m Z16i_nowhere_in_Sets Z16i_KnownToSerializer [of otherRanges]
    by (simp add: Z16_Z16i_fields)
qed

section \<open>The matrix of the bit cycle gate\<close>

lemma CYCLE_BITS_MATRIX_MAKER_2:
  "CYCLE_BITS_MATRIX_MAKER 2 =
     [[1, 0, 0, 0],
      [0, 0, 1, 0],
      [0, 1, 0, 0],
      [0, 0, 0, 1]]"
  by (simp add: CYCLE_BITS_MATRIX_MAKER_def Matrix_generate_def js_shl_def js_sar_def
      js_and_def js_or_def upt_conv_Cons Let_def)

lemma CYCLE_BITS_MATRIX_MAKER_3:
  "CYCLE_BITS_MATRIX_MAKER 3 =
     [[1, 0, 0, 0, 0, 0, 0, 0],
      [0, 0, 0, 0, 1, 0, 0, 0],
      [0, 1, 0, 0, 0, 0, 0, 0],
      [0, 0, 0, 0, 0, 1, 0, 0],
      [0, 0, 1, 0, 0, 0, 0, 0],
      [0, 0, 0, 0, 0, 0, 1, 0],
      [0, 0, 0, 1, 0, 0, 0, 0],
      [0, 0, 0, 0, 0, 0, 0, 1]]"
  by (simp add: CYCLE_BITS_MATRIX_MAKER_def Matrix_generate_def js_shl_def js_sar_def
      js_and_def js_or_def upt_conv_Cons Let_def)

lemma rotate_left_one_2:
  "map (rotate_left_one 2) [0..<4] = [0, 2, 1, 3]"
  by (simp add: rotate_left_one_def upt_conv_Cons)

lemma rotate_left_one_3:
  "map (rotate_left_one 3) [0..<8] = [0, 2, 4, 6, 1, 3, 5, 7]"
  by (simp add: rotate_left_one_def upt_conv_Cons)


lemma all_less_4: "(\<forall>i<4. P i) = (P 0 \<and> P 1 \<and> P 2 \<and> P (3::nat))"
proof -
  have "i < 4 \<longleftrightarrow> i = 0 \<or> i = 1 \<or> i = 2 \<or> i = 3" for i :: nat by arith
  then show ?thesis by auto
qed

lemma all_less_8:
  "(\<forall>i<8. P i) = (P 0 \<and> P 1 \<and> P 2 \<and> P 3 \<and> P 4 \<and> P 5 \<and> P 6 \<and> P (7::nat))"
proof -
  have "i < 8 \<longleftrightarrow> i = 0 \<or> i = 1 \<or> i = 2 \<or> i = 3 \<or> i = 4 \<or> i = 5 \<or> i = 6 \<or> i = 7"
    for i :: nat by arith
  then show ?thesis by auto
qed

lemma length_4_conv: "length v = 4 \<Longrightarrow> \<exists>a b c d. v = [a, b, c, d]"
  by (auto simp add: eval_nat_numeral length_Suc_conv)

lemma length_8_conv:
  "length v = 8 \<Longrightarrow> \<exists>a b c d e f g h. v = [a, b, c, d, e, f, g, h]"
  by (auto simp add: eval_nat_numeral length_Suc_conv)

lemma rotate_left_one_values:
  "rotate_left_one 2 0 = 0" "rotate_left_one 2 1 = 2" "rotate_left_one 2 2 = 1"
  "rotate_left_one 2 3 = 3"
  "rotate_left_one 3 0 = 0" "rotate_left_one 3 1 = 2" "rotate_left_one 3 2 = 4"
  "rotate_left_one 3 3 = 6" "rotate_left_one 3 4 = 1" "rotate_left_one 3 5 = 3"
  "rotate_left_one 3 6 = 5" "rotate_left_one 3 7 = 7"
  "rotate_left_one 2 (Suc 0) = 2" "rotate_left_one 3 (Suc 0) = 2"
  by (simp_all add: rotate_left_one_def)

lemma rotate_left_one_permutes:
  "mset (map (rotate_left_one 2) [0..<4]) = mset [0..<4]"
  "mset (map (rotate_left_one 3) [0..<8]) = mset [0..<8]"
proof -
  have u4: "[0..<4] = [0, 1, 2, 3]" and u8: "[0..<8] = [0, 1, 2, 3, 4, 5, 6, 7]"
    by (simp_all add: upt_conv_Cons)
  show "mset (map (rotate_left_one 2) [0..<4]) = mset [0..<4]"
    unfolding rotate_left_one_2 unfolding u4 by simp
  show "mset (map (rotate_left_one 3) [0..<8]) = mset [0..<8]"
    unfolding rotate_left_one_3 unfolding u8 by simp
qed

lemma cycle_2_entries:
  "\<forall>r<4. \<forall>c<4. CYCLE_BITS_MATRIX_MAKER 2 ! r ! c = (if r = rotate_left_one 2 c then 1 else 0)"
  unfolding all_less_4 CYCLE_BITS_MATRIX_MAKER_2
  by (simp add: rotate_left_one_values)

lemma cycle_3_entries:
  "\<forall>r<8. \<forall>c<8. CYCLE_BITS_MATRIX_MAKER 3 ! r ! c = (if r = rotate_left_one 3 c then 1 else 0)"
  unfolding all_less_8 CYCLE_BITS_MATRIX_MAKER_3
  by (simp add: rotate_left_one_values)

lemma cycle_2_apply:
  "applyMatrix (CYCLE_BITS_MATRIX_MAKER 2) [a, b, c, d] = [a, c, b, d]"
  by (simp add: CYCLE_BITS_MATRIX_MAKER_2 applyMatrix_def)

lemma cycle_3_apply:
  "applyMatrix (CYCLE_BITS_MATRIX_MAKER 3) [a, b, c, d, e, f, g, h] = [a, e, b, f, c, g, d, h]"
  by (simp add: CYCLE_BITS_MATRIX_MAKER_3 applyMatrix_def)

lemma cycle_2_state:
  assumes "length v = 4"
  shows "mset (applyMatrix (CYCLE_BITS_MATRIX_MAKER 2) v) = mset v
     \<and> (\<forall>c<4. applyMatrix (CYCLE_BITS_MATRIX_MAKER 2) v ! rotate_left_one 2 c = v ! c)"
proof -
  from length_4_conv [OF assms] obtain a b c d where v: "v = [a, b, c, d]" by blast
  show ?thesis
    unfolding v cycle_2_apply all_less_4 by (simp add: rotate_left_one_values)
qed

lemma cycle_3_state:
  assumes "length v = 8"
  shows "mset (applyMatrix (CYCLE_BITS_MATRIX_MAKER 3) v) = mset v
     \<and> (\<forall>c<8. applyMatrix (CYCLE_BITS_MATRIX_MAKER 3) v ! rotate_left_one 3 c = v ! c)"
proof -
  from length_8_conv [OF assms] obtain a b c d e f g h where v: "v = [a, b, c, d, e, f, g, h]"
    by blast
  show ?thesis
    unfolding v cycle_3_apply all_less_8 by (simp add: rotate_left_one_values)
qed

lemma CycleBitsGate_matrix:
  "matrixOrFunc (CycleBitsGate spn) =
     (if 4 \<le> spn then None else Some (KnownMatrix (CYCLE_BITS_MATRIX_MAKER spn)))"
  by (simp add: CycleBitsGate_def withCustomShader_def withCustomShaders_def withHeight_def
      withSerializedId_def withKnownMatrix_def markedAsOnlyPermutingAndPhasing_def
      markedAsStable_def withoutKnownMatrix_def)

lemma CycleBits_known_spans:
  "(\<exists>g. ofSize CycleBitsFamily s = Some g \<and> matrixOrFunc g \<noteq> None) \<longleftrightarrow> s = 2 \<or> s = 3"
  by (auto simp add: CycleBitsFamily_def ofSize_generateFamily CycleBitsGate_matrix)

text \<open>
  Claim C4. The bit cycle gate has a matrix for the spans 2 and 3 only. For these spans
  the matrix made has \<open>2 ^ span\<close> rows of \<open>2 ^ span\<close> entries; its entry at row \<open>r\<close> and
  column \<open>c\<close> is 1 when \<open>r\<close> is \<open>c\<close> rotated left by one position within the span and 0
  otherwise; the rotation permutes the addresses below \<open>2 ^ span\<close>. Applying the gate to
  a state of \<open>2 ^ span\<close> amplitudes moves the amplitude at address \<open>c\<close> to the rotated
  address and keeps the multiset of amplitudes.
\<close>

theorem CYCLE_BITS_MATRIX_MAKER_rotates_left:
  assumes "spn = 2 \<or> spn = 3"
  shows "\<exists>g M. ofSize CycleBitsFamily spn = Some g
           \<and> matrixOrFunc g = Some (KnownMatrix M)
           \<and> M = CYCLE_BITS_MATRIX_MAKER spn
           \<and> length M = 2 ^ spn
           \<and> (\<forall>row \<in> set M. length row = 2 ^ spn)
           \<and> (\<forall>r < 2 ^ spn. \<forall>c < 2 ^ spn.
                 M ! r ! c = (if r = rotate_left_one spn c then 1 else 0))
           \<and> mset (map (rotate_left_one spn) [0..<2 ^ spn]) = mset [0..<2 ^ spn]
           \<and> (\<forall>v. length v = 2 ^ spn \<longrightarrow>
                 (\<forall>t. applyGateAt g t v = Some (applyMatrix M v))
                 \<and> mset (applyMatrix M v) = mset v
                 \<and> (\<forall>c < 2 ^ spn. applyMatrix M v ! rotate_left_one spn c = v ! c))"
proof -
  let ?g = "CycleBitsGate spn"
  let ?M = "CYCLE_BITS_MATRIX_MAKER spn"
  have g: "ofSize CycleBitsFamily spn = Some ?g"
    using assms by (auto simp add: CycleBitsFamily_def ofSize_generateFamily)
  have m: "matrixOrFunc ?g = Some (KnownMatrix ?M)"
    using assms by (auto simp add: CycleBitsGate_matrix)
  have app: "\<forall>t. applyGateAt ?g t v = Some (applyMatrix ?M v)" for v
    by (simp add: applyGateAt_def matrixAt_def m)
  have dims: "length ?M = 2 ^ spn \<and> (\<forall>row \<in> set ?M. length row = 2 ^ spn)"
    using assms by (auto simp add: CYCLE_BITS_MATRIX_MAKER_2 CYCLE_BITS_MATRIX_MAKER_3)
  have entries: "\<forall>r < 2 ^ spn. \<forall>c < 2 ^ spn.
                 ?M ! r ! c = (if r = rotate_left_one spn c then 1 else 0)"
    using assms cycle_2_entries cycle_3_entries by auto
  have perm: "mset (map (rotate_left_one spn) [0..<2 ^ spn]) = mset [0..<2 ^ spn]"
    using assms rotate_left_one_permutes by auto
  have state: "\<forall>v. length v = 2 ^ spn \<longrightarrow>
                 (\<forall>t. applyGateAt ?g t v = Some (applyMatrix ?M v))
                 \<and> mset (applyMatrix ?M v) = mset v
                 \<and> (\<forall>c < 2 ^ spn. applyMatrix ?M v ! rotate_left_one spn c = v ! c)"
    using assms cycle_2_state cycle_3_state app by auto
  from g m dims entries perm state show ?thesis by blast
qed

theorem CYCLE_BITS_MATRIX_MAKER_rotates_left_witness:
  "((3::nat) = 2 \<or> (3::nat) = 3)
   \<and> (\<exists>g. ofSize CycleBitsFamily 3 = Some g
        \<and> matrixOrFunc g = Some (KnownMatrix (CYCLE_BITS_MATRIX_MAKER 3))
        \<and> length (CYCLE_BITS_MATRIX_MAKER 3) = 8
        \<and> CYCLE_BITS_MATRIX_MAKER 3 ! 6 ! 3 = 1
        \<and> CYCLE_BITS_MATRIX_MAKER 3 ! 6 ! 5 = 0
        \<and> applyGateAt g 0 [10, 11, 12, 13, 14, 15, 16, 17]
            = Some [10, 14, 11, 15, 12, 16, 13, 17]
        \<and> mset (applyMatrix (CYCLE_BITS_MATRIX_MAKER 3) [10, 11, 12, 13, 14, 15, 16, 17])
            = mset [10, 11, 12, 13, 14, 15, 16, 17])"
proof -
  from CYCLE_BITS_MATRIX_MAKER_rotates_left [of 3]
  obtain g where g: "ofSize CycleBitsFamily 3 = Some g"
    and m: "matrixOrFunc g = Some (KnownMatrix (CYCLE_BITS_MATRIX_MAKER 3))"
    and len: "length (CYCLE_BITS_MATRIX_MAKER 3) = 2 ^ 3"
    and entries: "\<forall>r < 2 ^ 3. \<forall>c < 2 ^ 3.
       CYCLE_BITS_MATRIX_MAKER 3 ! r ! c = (if r = rotate_left_one 3 c then 1 else 0)"
    and state: "\<forall>v. length v = 2 ^ 3 \<longrightarrow>
                 (\<forall>t. applyGateAt g t v = Some (applyMatrix (CYCLE_BITS_MATRIX_MAKER 3) v))
                 \<and> mset (applyMatrix (CYCLE_BITS_MATRIX_MAKER 3) v) = mset v"
    by auto
  have e1: "CYCLE_BITS_MATRIX_MAKER 3 ! 6 ! 3 = 1"
    using entries [rule_format, of 6 3] by (simp add: rotate_left_one_def)
  have e2: "CYCLE_BITS_MATRIX_MAKER 3 ! 6 ! 5 = 0"
    using entries [rule_format, of 6 5] by (simp add: rotate_left_one_def)
  have s: "applyGateAt g 0 [10, 11, 12, 13, 14, 15, 16, 17]
            = Some (applyMatrix (CYCLE_BITS_MATRIX_MAKER 3) [10, 11, 12, 13, 14, 15, 16, 17])"
     "mset (applyMatrix (CYCLE_BITS_MATRIX_MAKER 3) [10, 11, 12, 13, 14, 15, 16, 17])
            = mset [10, 11, 12, 13, 14, 15, 16, 17]"
    using state [rule_format, of "[10, 11, 12, 13, 14, 15, 16, 17]"] by simp_all
  show ?thesis
    using g m len e1 e2 s by (simp add: cycle_3_apply)
qed

section \<open>Making and caching the texture of a context\<close>

lemmas gl_defs = createTexture_def createFramebuffer_def bindTexture_def bindFramebuffer_def
  texParameteri_def texImage2D_def framebufferTexture2D_def getError_def
  checkFramebufferStatus_def checkGetErrorResult_def checkFrameBufferStatusResult_def

lemma initializer_result:
  "fst (textureAndFramebufferInitializer this ctx) =
     (let e1 = nextAnswer NO_ERROR (getErrorAnswers (gl ctx));
          e2 = nextAnswer NO_ERROR (tl (getErrorAnswers (gl ctx)));
          st = nextAnswer FRAMEBUFFER_COMPLETE (statusAnswers (gl ctx))
      in if e1 \<noteq> NO_ERROR then Inl (GetErrorFault e1 ''texImage2D'')
         else if e2 \<noteq> NO_ERROR then Inl (GetErrorFault e2 ''framebufferTexture2D'')
         else if st \<noteq> FRAMEBUFFER_COMPLETE then Inl (FrameBufferStatusFault st)
         else Inr \<lparr>texture = Suc (texturesCreated (gl ctx)),
                   framebuffer = Suc (framebuffersCreated (gl ctx))\<rparr>)"
  by (simp add: textureAndFramebufferInitializer_def gl_defs Let_def)

lemma initializer_success_eq:
  assumes "nextAnswer NO_ERROR (getErrorAnswers (gl ctx)) = NO_ERROR"
    and "nextAnswer NO_ERROR (tl (getErrorAnswers (gl ctx))) = NO_ERROR"
    and "nextAnswer FRAMEBUFFER_COMPLETE (statusAnswers (gl ctx)) = FRAMEBUFFER_COMPLETE"
  shows "textureAndFramebufferInitializer this ctx =
     (Inr \<lparr>texture = Suc (texturesCreated (gl ctx)),
            framebuffer = Suc (framebuffersCreated (gl ctx))\<rparr>, initialized this ctx)"
  by (simp add: textureAndFramebufferInitializer_def gl_defs Let_def assms initialized_def)

lemma initializer_Inr_iff:
  "(\<exists>inst. fst (textureAndFramebufferInitializer this ctx) = Inr inst) \<longleftrightarrow>
     nextAnswer NO_ERROR (getErrorAnswers (gl ctx)) = NO_ERROR
     \<and> nextAnswer NO_ERROR (tl (getErrorAnswers (gl ctx))) = NO_ERROR
     \<and> nextAnswer FRAMEBUFFER_COMPLETE (statusAnswers (gl ctx)) = FRAMEBUFFER_COMPLETE"
  unfolding initializer_result Let_def by (simp split: if_splits)

lemma initializer_success:
  assumes "textureAndFramebufferInitializer this ctx = (Inr inst, ctx')"
  shows "inst = \<lparr>texture = Suc (texturesCreated (gl ctx)),
                 framebuffer = Suc (framebuffersCreated (gl ctx))\<rparr>"
    and "ctx' = initialized this ctx"
proof -
  from assms have "\<exists>inst. fst (textureAndFramebufferInitializer this ctx) = Inr inst"
    by simp
  then have "textureAndFramebufferInitializer this ctx =
     (Inr \<lparr>texture = Suc (texturesCreated (gl ctx)),
            framebuffer = Suc (framebuffersCreated (gl ctx))\<rparr>, initialized this ctx)"
    unfolding initializer_Inr_iff by (intro initializer_success_eq) simp_all
  with assms show "inst = \<lparr>texture = Suc (texturesCreated (gl ctx)),
                 framebuffer = Suc (framebuffersCreated (gl ctx))\<rparr>"
    and "ctx' = initialized this ctx"
    by simp_all
qed

lemma initialized_fields:
  "contextId (initialized this ctx) = contextId ctx"
  "lifetimeCounter (initialized this ctx) = lifetimeCounter ctx"
  "texturesCreated (gl (initialized this ctx)) = Suc (texturesCreated (gl ctx))"
  "framebuffersCreated (gl (initialized this ctx)) = Suc (framebuffersCreated (gl ctx))"
  "getErrorAnswers (gl (initialized this ctx)) = tl (tl (getErrorAnswers (gl ctx)))"
  "statusAnswers (gl (initialized this ctx)) = tl (statusAnswers (gl ctx))"
  "calls (gl (initialized this ctx)) = calls (gl ctx) @
           [CreateTexture (Suc (texturesCreated (gl ctx))),
            CreateFramebuffer (Suc (framebuffersCreated (gl ctx))),
            BindTexture (Some (Suc (texturesCreated (gl ctx)))),
            BindFramebuffer (Some (Suc (framebuffersCreated (gl ctx)))),
            TexParameteri TEXTURE_MAG_FILTER NEAREST, TexParameteri TEXTURE_MIN_FILTER NEAREST,
            TexParameteri TEXTURE_WRAP_S CLAMP_TO_EDGE, TexParameteri TEXTURE_WRAP_T CLAMP_TO_EDGE,
            TexImage2D (width this) (height this) (pixelType this), GetError NO_ERROR,
            FramebufferTexture2D (Suc (texturesCreated (gl ctx))), GetError NO_ERROR,
            CheckFramebufferStatus FRAMEBUFFER_COMPLETE,
            BindTexture None, BindFramebuffer None]"
  by (simp_all add: initialized_def)

lemma instanceFor_miss:
  assumes "textureAndFrameBufferSlot this (contextId ctx) = None"
  shows "instanceFor this ctx =
     (case textureAndFramebufferInitializer this ctx of
        (Inl e, c) \<Rightarrow> (Inl e, this, c)
      | (Inr v, c) \<Rightarrow>
          (Inr v,
           this\<lparr>textureAndFrameBufferSlot :=
                  (textureAndFrameBufferSlot this)(contextId ctx \<mapsto> (lifetimeCounter ctx, v))\<rparr>,
           c))"
  by (simp add: instanceFor_def initializedValue_def assms split: prod.splits sum.splits)

lemma instanceFor_hit:
  assumes "textureAndFrameBufferSlot this (contextId ctx) = Some (lifetimeCounter ctx, v)"
  shows "instanceFor this ctx = (Inr v, this, ctx)"
  by (simp add: instanceFor_def initializedValue_def assms)

lemma bindFramebufferFor_after:
  assumes "instanceFor this ctx = (Inr inst, this', ctx')"
  shows "fst (bindFramebufferFor this ctx) =
           (let e = nextAnswer NO_ERROR (getErrorAnswers (gl ctx'));
                st = nextAnswer FRAMEBUFFER_COMPLETE (statusAnswers (gl ctx'))
            in if e \<noteq> NO_ERROR then Inl (GetErrorFault e ''framebufferTexture2D'')
               else if st \<noteq> FRAMEBUFFER_COMPLETE then Inl (FrameBufferStatusFault st)
               else Inr ())"
    and "fst (snd (bindFramebufferFor this ctx)) = this'"
    and "texturesCreated (gl (snd (snd (bindFramebufferFor this ctx)))) = texturesCreated (gl ctx')"
    and "framebuffersCreated (gl (snd (snd (bindFramebufferFor this ctx))))
           = framebuffersCreated (gl ctx')"
  by (simp_all add: bindFramebufferFor_def assms gl_defs Let_def)

text \<open>
  Claim C7. A texture just constructed holds no instance for any context, and its
  construction touches no context. When the slot of a texture holds nothing for a
  context and \<open>instanceFor\<close> returns an instance there, that call has made one texture
  and one framebuffer, the next handles of the context, with the fifteen calls of the
  initializer, the checks included; \<open>bindFramebufferFor\<close> in its place makes one
  texture and one framebuffer as well and leaves the same texture object. From then on every \<open>instanceFor\<close> on the same context, not lost in
  between, returns the same instance and leaves texture and context as they are, and
  \<open>bindFramebufferFor\<close> makes no texture or framebuffer.
\<close>

theorem WglTexture_instance_made_once:
  assumes "textureAndFrameBufferSlot this (contextId ctx) = None"
    and "instanceFor this ctx = (Inr inst, this', ctx')"
  shows "textureAndFrameBufferSlot (WglTexture_new w h ptype) = Map.empty
     \<and> inst = \<lparr>texture = Suc (texturesCreated (gl ctx)),
                framebuffer = Suc (framebuffersCreated (gl ctx))\<rparr>
     \<and> texturesCreated (gl ctx') = Suc (texturesCreated (gl ctx))
     \<and> framebuffersCreated (gl ctx') = Suc (framebuffersCreated (gl ctx))
     \<and> calls (gl ctx') = calls (gl ctx) @
           [CreateTexture (texture inst), CreateFramebuffer (framebuffer inst),
            BindTexture (Some (texture inst)), BindFramebuffer (Some (framebuffer inst)),
            TexParameteri TEXTURE_MAG_FILTER NEAREST, TexParameteri TEXTURE_MIN_FILTER NEAREST,
            TexParameteri TEXTURE_WRAP_S CLAMP_TO_EDGE, TexParameteri TEXTURE_WRAP_T CLAMP_TO_EDGE,
            TexImage2D (width this) (height this) (pixelType this), GetError NO_ERROR,
            FramebufferTexture2D (texture inst), GetError NO_ERROR,
            CheckFramebufferStatus FRAMEBUFFER_COMPLETE,
            BindTexture None, BindFramebuffer None]
     \<and> fst (snd (bindFramebufferFor this ctx)) = this'
     \<and> texturesCreated (gl (snd (snd (bindFramebufferFor this ctx))))
         = Suc (texturesCreated (gl ctx))
     \<and> framebuffersCreated (gl (snd (snd (bindFramebufferFor this ctx))))
         = Suc (framebuffersCreated (gl ctx))
     \<and> (\<forall>ctx2. contextId ctx2 = contextId ctx \<and> lifetimeCounter ctx2 = lifetimeCounter ctx
           \<longrightarrow> instanceFor this' ctx2 = (Inr inst, this', ctx2)
               \<and> fst (snd (bindFramebufferFor this' ctx2)) = this'
               \<and> texturesCreated (gl (snd (snd (bindFramebufferFor this' ctx2))))
                   = texturesCreated (gl ctx2)
               \<and> framebuffersCreated (gl (snd (snd (bindFramebufferFor this' ctx2))))
                   = framebuffersCreated (gl ctx2))"
proof -
  obtain r c where init: "textureAndFramebufferInitializer this ctx = (r, c)"
    by (cases "textureAndFramebufferInitializer this ctx")
  from assms(2) have r: "r = Inr inst" and c: "c = ctx'"
    and this': "this' = this\<lparr>textureAndFrameBufferSlot :=
                  (textureAndFrameBufferSlot this)(contextId ctx \<mapsto> (lifetimeCounter ctx, inst))\<rparr>"
    unfolding instanceFor_miss [OF assms(1)] init by (cases r; simp)+
  from init r c have i: "inst = \<lparr>texture = Suc (texturesCreated (gl ctx)),
                 framebuffer = Suc (framebuffersCreated (gl ctx))\<rparr>"
    and ctx': "ctx' = initialized this ctx"
    using initializer_success [of this ctx inst ctx'] by simp_all
  have new: "textureAndFrameBufferSlot (WglTexture_new w h ptype) = Map.empty"
    by (simp add: WglTexture_new_def)
  have counts: "texturesCreated (gl ctx') = Suc (texturesCreated (gl ctx))"
    "framebuffersCreated (gl ctx') = Suc (framebuffersCreated (gl ctx))"
    by (simp_all add: ctx' initialized_fields)
  have trace: "calls (gl ctx') = calls (gl ctx) @
           [CreateTexture (texture inst), CreateFramebuffer (framebuffer inst),
            BindTexture (Some (texture inst)), BindFramebuffer (Some (framebuffer inst)),
            TexParameteri TEXTURE_MAG_FILTER NEAREST, TexParameteri TEXTURE_MIN_FILTER NEAREST,
            TexParameteri TEXTURE_WRAP_S CLAMP_TO_EDGE, TexParameteri TEXTURE_WRAP_T CLAMP_TO_EDGE,
            TexImage2D (width this) (height this) (pixelType this), GetError NO_ERROR,
            FramebufferTexture2D (texture inst), GetError NO_ERROR,
            CheckFramebufferStatus FRAMEBUFFER_COMPLETE,
            BindTexture None, BindFramebuffer None]"
    by (simp add: ctx' initialized_fields i)
  have b1: "fst (snd (bindFramebufferFor this ctx)) = this'"
    by (rule bindFramebufferFor_after(2) [OF assms(2)])
  have b2: "texturesCreated (gl (snd (snd (bindFramebufferFor this ctx))))
         = Suc (texturesCreated (gl ctx))"
    "framebuffersCreated (gl (snd (snd (bindFramebufferFor this ctx))))
         = Suc (framebuffersCreated (gl ctx))"
    using bindFramebufferFor_after(3,4) [OF assms(2)] counts by simp_all
  have later: "instanceFor this' ctx2 = (Inr inst, this', ctx2)
               \<and> fst (snd (bindFramebufferFor this' ctx2)) = this'
               \<and> texturesCreated (gl (snd (snd (bindFramebufferFor this' ctx2))))
                   = texturesCreated (gl ctx2)
               \<and> framebuffersCreated (gl (snd (snd (bindFramebufferFor this' ctx2))))
                   = framebuffersCreated (gl ctx2)"
    if "contextId ctx2 = contextId ctx \<and> lifetimeCounter ctx2 = lifetimeCounter ctx" for ctx2
  proof -
    have "textureAndFrameBufferSlot this' (contextId ctx2) = Some (lifetimeCounter ctx2, inst)"
      using that by (simp add: this')
    then have h: "instanceFor this' ctx2 = (Inr inst, this', ctx2)"
      by (rule instanceFor_hit)
    show ?thesis
      using h bindFramebufferFor_after(2-4) [OF h] by simp
  qed
  from new i counts trace b1 b2 later show ?thesis by blast
qed


theorem WglTexture_instance_made_once_witness:
  "textureAndFrameBufferSlot (WglTexture_new 4 4 GL_FLOAT) (contextId (newContext 7 [] [])) = None
   \<and> (\<exists>this' ctx'.
          instanceFor (WglTexture_new 4 4 GL_FLOAT) (newContext 7 [] [])
            = (Inr \<lparr>texture = 1, framebuffer = 1\<rparr>, this', ctx')
          \<and> texturesCreated (gl ctx') = 1
          \<and> contextId ctx' = contextId (newContext 7 [] [])
          \<and> lifetimeCounter ctx' = lifetimeCounter (newContext 7 [] [])
          \<and> instanceFor this' ctx' = (Inr \<lparr>texture = 1, framebuffer = 1\<rparr>, this', ctx')
          \<and> texturesCreated (gl (snd (snd (bindFramebufferFor this' ctx')))) = 1)"
proof -
  let ?t = "WglTexture_new 4 4 GL_FLOAT"
  let ?c = "newContext 7 [] []"
  let ?i = "\<lparr>texture = 1, framebuffer = 1\<rparr>"
  have none: "textureAndFrameBufferSlot ?t (contextId ?c) = None"
    by (simp add: WglTexture_new_def)
  have init: "textureAndFramebufferInitializer ?t ?c = (Inr ?i, initialized ?t ?c)"
    using initializer_success_eq [of ?c ?t]
    by (simp add: newContext_def nextAnswer_def)
  then have first: "instanceFor ?t ?c =
      (Inr ?i,
       ?t\<lparr>textureAndFrameBufferSlot :=
            (textureAndFrameBufferSlot ?t)(contextId ?c \<mapsto> (lifetimeCounter ?c, ?i))\<rparr>,
       initialized ?t ?c)"
    by (simp add: instanceFor_miss [OF none])
  have same: "contextId (initialized ?t ?c) = contextId ?c
      \<and> lifetimeCounter (initialized ?t ?c) = lifetimeCounter ?c"
    by (simp add: initialized_fields)
  let ?t' = "?t\<lparr>textureAndFrameBufferSlot :=
            (textureAndFrameBufferSlot ?t)(contextId ?c \<mapsto> (lifetimeCounter ?c, ?i))\<rparr>"
  let ?c' = "initialized ?t ?c"
  note made = WglTexture_instance_made_once [OF none first, of 4 4 GL_FLOAT]
  from made have count: "texturesCreated (gl ?c') = Suc (texturesCreated (gl ?c))"
    by blast
  from made have "\<forall>ctx2. contextId ctx2 = contextId ?c \<and> lifetimeCounter ctx2 = lifetimeCounter ?c
           \<longrightarrow> instanceFor ?t' ctx2 = (Inr ?i, ?t', ctx2)
               \<and> texturesCreated (gl (snd (snd (bindFramebufferFor ?t' ctx2))))
                   = texturesCreated (gl ctx2)"
    by blast
  with same have again: "instanceFor ?t' ?c' = (Inr ?i, ?t', ?c')"
    and bound: "texturesCreated (gl (snd (snd (bindFramebufferFor ?t' ?c'))))
                   = texturesCreated (gl ?c')"
    by blast+
  have one: "texturesCreated (gl ?c') = 1"
    using count by (simp add: newContext_def)
  show ?thesis
    apply (intro conjI)
     apply (rule none)
    apply (rule exI [of _ ?t'])
    apply (rule exI [of _ ?c'])
    using first same again bound one apply simp
    done
qed

section \<open>Faults of the texture code\<close>

lemma instanceFor_eq:
  "instanceFor this ctx =
     (case cachedFor this ctx of
        Some v \<Rightarrow> (Inr v, this, ctx)
      | None \<Rightarrow>
          (case textureAndFramebufferInitializer this ctx of
             (Inl e, c) \<Rightarrow> (Inl e, this, c)
           | (Inr v, c) \<Rightarrow>
               (Inr v,
                this\<lparr>textureAndFrameBufferSlot :=
                  (textureAndFrameBufferSlot this)(contextId ctx \<mapsto> (lifetimeCounter ctx, v))\<rparr>,
                c)))"
  by (simp add: instanceFor_def initializedValue_def cachedFor_def
      split: prod.splits sum.splits option.splits)

lemma bindFramebufferFor_result:
  "fst (bindFramebufferFor this ctx) =
     (case cachedFor this ctx of
        Some v \<Rightarrow> bindingCheck (getErrorAnswers (gl ctx)) (statusAnswers (gl ctx))
      | None \<Rightarrow>
          (case fst (textureAndFramebufferInitializer this ctx) of
             Inl e \<Rightarrow> Inl e
           | Inr v \<Rightarrow> bindingCheck (tl (tl (getErrorAnswers (gl ctx))))
                       (tl (statusAnswers (gl ctx)))))"
proof (cases "cachedFor this ctx")
  case (Some v)
  then have "instanceFor this ctx = (Inr v, this, ctx)"
    by (simp add: instanceFor_eq)
  from bindFramebufferFor_after(1) [OF this] Some show ?thesis
    by (simp add: bindingCheck_def)
next
  case None
  obtain r c where init: "textureAndFramebufferInitializer this ctx = (r, c)"
    by (cases "textureAndFramebufferInitializer this ctx")
  show ?thesis
  proof (cases r)
    case (Inl e)
    then have "instanceFor this ctx = (Inl e, this, c)"
      by (simp add: instanceFor_eq None init)
    then show ?thesis
      by (simp add: bindFramebufferFor_def None init Inl)
  next
    case (Inr v)
    with init have c: "c = initialized this ctx"
      using initializer_success(2) [of this ctx v c] by simp
    have "instanceFor this ctx =
        (Inr v, this\<lparr>textureAndFrameBufferSlot :=
                  (textureAndFrameBufferSlot this)(contextId ctx \<mapsto> (lifetimeCounter ctx, v))\<rparr>,
         initialized this ctx)"
      by (simp add: instanceFor_eq None init Inr c)
    from bindFramebufferFor_after(1) [OF this] show ?thesis
      by (simp add: None init Inr bindingCheck_def initialized_fields)
  qed
qed

lemma cachedFor_dimensions:
  "cachedFor (this\<lparr>width := w, height := h\<rparr>) ctx = cachedFor this ctx"
  by (simp add: cachedFor_def)

text \<open>
  Claim C8, as stated, fails. When the driver reports an error after \<open>texImage2D\<close>, a
  texture of 1 by 1 and a texture of 4096 by 2048 raise the very same fault: it holds the
  error code and the label \<open>texImage2D\<close>, and no width or height. The same holds for an
  error reported after the binding in \<open>bindFramebufferFor\<close>, where the last call before
  the failing check was \<open>bindFramebuffer\<close> and the label is that of another operation.
\<close>

theorem texture_fault_same_for_all_dimensions:
  "fst (textureAndFramebufferInitializer (WglTexture_new 1 1 GL_FLOAT)
          (newContext 0 [INVALID_VALUE] []))
     = Inl (GetErrorFault INVALID_VALUE ''texImage2D'')
   \<and> fst (textureAndFramebufferInitializer (WglTexture_new 4096 2048 GL_FLOAT)
          (newContext 0 [INVALID_VALUE] []))
     = Inl (GetErrorFault INVALID_VALUE ''texImage2D'')
   \<and> fst (bindFramebufferFor (WglTexture_new 1 1 GL_FLOAT)
          (newContext 0 [NO_ERROR, NO_ERROR, INVALID_OPERATION] []))
     = Inl (GetErrorFault INVALID_OPERATION ''framebufferTexture2D'')
   \<and> fst (bindFramebufferFor (WglTexture_new 4096 2048 GL_FLOAT)
          (newContext 0 [NO_ERROR, NO_ERROR, INVALID_OPERATION] []))
     = Inl (GetErrorFault INVALID_OPERATION ''framebufferTexture2D'')
   \<and> drop 15 (calls (gl (snd (snd (bindFramebufferFor (WglTexture_new 1 1 GL_FLOAT)
          (newContext 0 [NO_ERROR, NO_ERROR, INVALID_OPERATION] []))))))
     = [BindFramebuffer (Some 1), GetError INVALID_OPERATION]"
proof -
  have ne: "INVALID_VALUE \<noteq> NO_ERROR" "INVALID_OPERATION \<noteq> NO_ERROR"
    by (simp_all add: INVALID_VALUE_def INVALID_OPERATION_def NO_ERROR_def)
  have none: "cachedFor (WglTexture_new w h GL_FLOAT) c = None" for w h c
    by (simp add: cachedFor_def WglTexture_new_def)
  have i: "fst (textureAndFramebufferInitializer (WglTexture_new w h GL_FLOAT)
          (newContext 0 [INVALID_VALUE] []))
     = Inl (GetErrorFault INVALID_VALUE ''texImage2D'')" for w h
    unfolding initializer_result by (simp add: newContext_def nextAnswer_def ne)
  have b: "fst (bindFramebufferFor (WglTexture_new w h GL_FLOAT)
          (newContext 0 [NO_ERROR, NO_ERROR, INVALID_OPERATION] []))
     = Inl (GetErrorFault INVALID_OPERATION ''framebufferTexture2D'')" for w h
    unfolding bindFramebufferFor_result none initializer_result
    by (simp add: newContext_def nextAnswer_def ne bindingCheck_def)
  let ?t = "WglTexture_new 1 1 GL_FLOAT"
  let ?c = "newContext 0 [NO_ERROR, NO_ERROR, INVALID_OPERATION] []"
  have init: "textureAndFramebufferInitializer ?t ?c =
      (Inr \<lparr>texture = 1, framebuffer = 1\<rparr>, initialized ?t ?c)"
    using initializer_success_eq [of ?c ?t]
    by (simp add: newContext_def nextAnswer_def)
  have inst: "instanceFor ?t ?c =
      (Inr \<lparr>texture = 1, framebuffer = 1\<rparr>,
       ?t\<lparr>textureAndFrameBufferSlot :=
            (textureAndFrameBufferSlot ?t)(contextId ?c \<mapsto>
               (lifetimeCounter ?c, \<lparr>texture = 1, framebuffer = 1\<rparr>))\<rparr>,
       initialized ?t ?c)"
    by (simp add: instanceFor_eq none init)
  have answers: "getErrorAnswers (gl (initialized ?t ?c)) = [INVALID_OPERATION]"
    by (simp add: initialized_fields newContext_def)
  have "calls (gl (snd (snd (bindFramebufferFor ?t ?c))))
      = calls (gl (initialized ?t ?c)) @ [BindFramebuffer (Some 1), GetError INVALID_OPERATION]"
    by (simp add: bindFramebufferFor_def inst gl_defs Let_def answers nextAnswer_def ne)
  moreover have "length (calls (gl (initialized ?t ?c))) = 15"
    by (simp add: initialized_fields newContext_def)
  ultimately have tr: "drop 15 (calls (gl (snd (snd (bindFramebufferFor ?t ?c)))))
     = [BindFramebuffer (Some 1), GetError INVALID_OPERATION]"
    by simp
  from i [of 1 1] i [of 4096 2048] b [of 1 1] b [of 4096 2048] tr show ?thesis
    by blast
qed

text \<open>
  Claim C8, amended. The initializer raises a fault exactly when the driver answers the
  check after \<open>texImage2D\<close> or after \<open>framebufferTexture2D\<close> with an error code, or
  reports the framebuffer incomplete: the fault holds that code and, for an error code,
  the label of the operation, and the initializer returns the new pair otherwise. The
  outcome of the initializer, of \<open>instanceFor\<close> and of \<open>bindFramebufferFor\<close> does not
  depend on the width and height of the texture. \<open>bindFramebufferFor\<close> passes a fault
  of \<open>instanceFor\<close> on; after an instance was obtained it raises a fault holding the code
  exactly when the driver answers its check with an error code or reports the
  framebuffer incomplete, and returns otherwise.
\<close>

theorem texture_faults_without_dimensions:
  "fst (textureAndFramebufferInitializer this ctx) =
     (let e1 = nextAnswer NO_ERROR (getErrorAnswers (gl ctx));
          e2 = nextAnswer NO_ERROR (tl (getErrorAnswers (gl ctx)));
          st = nextAnswer FRAMEBUFFER_COMPLETE (statusAnswers (gl ctx))
      in if e1 \<noteq> NO_ERROR then Inl (GetErrorFault e1 ''texImage2D'')
         else if e2 \<noteq> NO_ERROR then Inl (GetErrorFault e2 ''framebufferTexture2D'')
         else if st \<noteq> FRAMEBUFFER_COMPLETE then Inl (FrameBufferStatusFault st)
         else Inr \<lparr>texture = Suc (texturesCreated (gl ctx)),
                   framebuffer = Suc (framebuffersCreated (gl ctx))\<rparr>)
   \<and> fst (textureAndFramebufferInitializer (this\<lparr>width := w, height := h\<rparr>) ctx)
       = fst (textureAndFramebufferInitializer this ctx)
   \<and> fst (instanceFor (this\<lparr>width := w, height := h\<rparr>) ctx) = fst (instanceFor this ctx)
   \<and> fst (bindFramebufferFor (this\<lparr>width := w, height := h\<rparr>) ctx)
       = fst (bindFramebufferFor this ctx)
   \<and> (case instanceFor this ctx of
         (Inl e, this', ctx') \<Rightarrow> fst (bindFramebufferFor this ctx) = Inl e
       | (Inr inst, this', ctx') \<Rightarrow>
           (case fst (bindFramebufferFor this ctx) of
              Inl (GetErrorFault code label) \<Rightarrow>
                code = nextAnswer NO_ERROR (getErrorAnswers (gl ctx')) \<and> code \<noteq> NO_ERROR
            | Inl (FrameBufferStatusFault code) \<Rightarrow>
                nextAnswer NO_ERROR (getErrorAnswers (gl ctx')) = NO_ERROR
                \<and> code = nextAnswer FRAMEBUFFER_COMPLETE (statusAnswers (gl ctx'))
                \<and> code \<noteq> FRAMEBUFFER_COMPLETE
            | Inl (DetailedError message details) \<Rightarrow> False
            | Inr u \<Rightarrow>
                nextAnswer NO_ERROR (getErrorAnswers (gl ctx')) = NO_ERROR
                \<and> nextAnswer FRAMEBUFFER_COMPLETE (statusAnswers (gl ctx'))
                    = FRAMEBUFFER_COMPLETE))"
proof -
  have a: "fst (textureAndFramebufferInitializer (this\<lparr>width := w, height := h\<rparr>) ctx)
       = fst (textureAndFramebufferInitializer this ctx)"
    unfolding initializer_result ..
  have b: "fst (instanceFor (this\<lparr>width := w, height := h\<rparr>) ctx) = fst (instanceFor this ctx)"
  proof -
    have "fst (instanceFor t ctx) =
        (case cachedFor t ctx of Some v \<Rightarrow> Inr v
         | None \<Rightarrow> fst (textureAndFramebufferInitializer t ctx))" for t
      by (simp add: instanceFor_eq split: option.splits prod.splits sum.splits)
    then show ?thesis
      by (simp add: cachedFor_dimensions a split: option.splits)
  qed
  have c: "fst (bindFramebufferFor (this\<lparr>width := w, height := h\<rparr>) ctx)
       = fst (bindFramebufferFor this ctx)"
    unfolding bindFramebufferFor_result cachedFor_dimensions a ..
  have d: "(case instanceFor this ctx of
         (Inl e, this', ctx') \<Rightarrow> fst (bindFramebufferFor this ctx) = Inl e
       | (Inr inst, this', ctx') \<Rightarrow>
           (case fst (bindFramebufferFor this ctx) of
              Inl (GetErrorFault code label) \<Rightarrow>
                code = nextAnswer NO_ERROR (getErrorAnswers (gl ctx')) \<and> code \<noteq> NO_ERROR
            | Inl (FrameBufferStatusFault code) \<Rightarrow>
                nextAnswer NO_ERROR (getErrorAnswers (gl ctx')) = NO_ERROR
                \<and> code = nextAnswer FRAMEBUFFER_COMPLETE (statusAnswers (gl ctx'))
                \<and> code \<noteq> FRAMEBUFFER_COMPLETE
            | Inl (DetailedError message details) \<Rightarrow> False
            | Inr u \<Rightarrow>
                nextAnswer NO_ERROR (getErrorAnswers (gl ctx')) = NO_ERROR
                \<and> nextAnswer FRAMEBUFFER_COMPLETE (statusAnswers (gl ctx'))
                    = FRAMEBUFFER_COMPLETE))"
  proof -
    obtain r t' c' where i: "instanceFor this ctx = (r, t', c')"
      by (cases "instanceFor this ctx")
    show ?thesis
    proof (cases r)
      case (Inl e)
      then show ?thesis by (simp add: i bindFramebufferFor_def)
    next
      case (Inr inst)
      with i have "instanceFor this ctx = (Inr inst, t', c')" by simp
      from bindFramebufferFor_after(1) [OF this] show ?thesis
        by (simp add: i Inr Let_def)
    qed
  qed
  from initializer_result [of this ctx] a b c d show ?thesis by blast
qed

theorem texture_faults_without_dimensions_witness:
  "fst (textureAndFramebufferInitializer
          ((WglTexture_new 1 1 GL_FLOAT)\<lparr>width := 4096, height := 2048\<rparr>)
          (newContext 0 [INVALID_VALUE] []))
     = Inl (GetErrorFault INVALID_VALUE ''texImage2D'')
   \<and> fst (bindFramebufferFor
          ((WglTexture_new 1 1 GL_FLOAT)\<lparr>width := 4096, height := 2048\<rparr>)
          (newContext 0 [INVALID_VALUE] []))
     = Inl (GetErrorFault INVALID_VALUE ''texImage2D'')
   \<and> fst (bindFramebufferFor (WglTexture_new 1 1 GL_FLOAT) (newContext 0 [INVALID_VALUE] []))
     = Inl (GetErrorFault INVALID_VALUE ''texImage2D'')"
proof -
  let ?t = "WglTexture_new 1 1 GL_FLOAT"
  let ?c = "newContext 0 [INVALID_VALUE] []"
  have ne: "INVALID_VALUE \<noteq> NO_ERROR"
    by (simp add: INVALID_VALUE_def NO_ERROR_def)
  note t = texture_faults_without_dimensions
             [where this = "?t" and ctx = "?c" and w = 4096 and h = 2048]
  from t have r: "fst (textureAndFramebufferInitializer ?t ?c)
      = Inl (GetErrorFault INVALID_VALUE ''texImage2D'')"
    by (simp add: newContext_def nextAnswer_def ne)
  from t have d: "fst (textureAndFramebufferInitializer (?t\<lparr>width := 4096, height := 2048\<rparr>) ?c)
       = fst (textureAndFramebufferInitializer ?t ?c)"
    and e: "fst (bindFramebufferFor (?t\<lparr>width := 4096, height := 2048\<rparr>) ?c)
       = fst (bindFramebufferFor ?t ?c)"
    by blast+
  have m: "instanceFor ?t ?c = (Inl (GetErrorFault INVALID_VALUE ''texImage2D''), ?t,
      snd (textureAndFramebufferInitializer ?t ?c))"
    using r
    by (cases "textureAndFramebufferInitializer ?t ?c")
      (simp add: instanceFor_eq cachedFor_def WglTexture_new_def)
  from t have "case instanceFor ?t ?c of
         (Inl e, this', ctx') \<Rightarrow> fst (bindFramebufferFor ?t ?c) = Inl e
       | (Inr inst, this', ctx') \<Rightarrow> True \<or> fst (bindFramebufferFor ?t ?c) = Inr ()"
    by (simp split: prod.splits sum.splits)
  then have f: "fst (bindFramebufferFor ?t ?c) = Inl (GetErrorFault INVALID_VALUE ''texImage2D'')"
    unfolding m by simp
  from r d e f show ?thesis by simp
qed

section \<open>The two clock pulse gates\<close>



































end
